theory Spec2Isabelle
  imports Complex_Main "HOL-Library.Sublist" "HOL-Library.AList"
begin

section \<open>Strings\<close>

text \<open>
  Names and URLs are character lists. \<open>toLowerCase\<close> folds the letters A to Z, which is
  what the JavaScript method does on ASCII text. Only the computations on the example
  inputs unfold it; the general theorems hold whatever a single character is folded to.
\<close>

definition lower_char :: "char \<Rightarrow> char" where
  "lower_char c =
     (case map_of (zip ''ABCDEFGHIJKLMNOPQRSTUVWXYZ'' ''abcdefghijklmnopqrstuvwxyz'') c of
        Some l \<Rightarrow> l
      | None \<Rightarrow> c)"

definition toLowerCase :: "string \<Rightarrow> string" where
  "toLowerCase s = map lower_char s"

text \<open>\<open>s.includes(sub)\<close> and \<open>s.endsWith(suf)\<close>.\<close>

definition str_includes :: "string \<Rightarrow> string \<Rightarrow> bool" where
  "str_includes s sub = sublist sub s"

definition endsWith :: "string \<Rightarrow> string \<Rightarrow> bool" where
  "endsWith s suf = suffix suf s"

text \<open>
  \<open>s.split(sep)\<close> for a one-character separator: the pieces between the separators,
  empty pieces included, so the result is never empty.
\<close>

fun split :: "char \<Rightarrow> string \<Rightarrow> string list" where
  "split sep [] = [[]]"
| "split sep (c # cs) =
     (if c = sep then [] # split sep cs
      else (case split sep cs of [] \<Rightarrow> [[c]] | w # ws \<Rightarrow> (c # w) # ws))"

section \<open>Scene objects, tracks and clips\<close>

text \<open>
  An \<open>Object3D\<close> is known by its \<open>uuid\<close> and carries a \<open>name\<close>; the geometry, materials
  and transforms of the engine are not part of the model.
\<close>

record object3d =
  uuid :: nat
  name :: string

datatype track_class =
  QuaternionKeyframeTrack | VectorKeyframeTrack | NumberKeyframeTrack | KeyframeTrack

record keyframe_track =
  track_class :: track_class
  track_name :: string
  track_times :: "real list"
  track_values :: "real list"

record animation_clip =
  clip_name :: string
  duration :: real
  tracks :: "keyframe_track list"

section \<open>The bone-mapping table\<close>

text \<open>
  \<open>boneMapping\<close> is a plain object used as a dictionary. Its own properties are kept in
  insertion order (the order \<open>Object.entries\<close> walks them): assigning to a new key appends
  it, assigning to an existing key overwrites the value in place. The keys written are the
  values of the library's bone-name enumeration, their lower-case forms and seven fixed
  aliases, all of them ordinary identifier-like keys.
\<close>

type_synonym bone_mapping = "(string \<times> object3d) list"

text \<open>
  A property read \<open>boneMapping[key]\<close> finds an own property first and otherwise the
  property of that name which every plain object inherits from \<open>Object.prototype\<close>. All of
  the inherited values are functions or objects, hence truthy; the table records how the
  \<open>name\<close> of each one prints inside a template literal.
\<close>

definition Object_prototype :: "(string \<times> string) list" where
  "Object_prototype =
     [(''constructor'', ''Object''),
      (''hasOwnProperty'', ''hasOwnProperty''),
      (''isPrototypeOf'', ''isPrototypeOf''),
      (''propertyIsEnumerable'', ''propertyIsEnumerable''),
      (''toLocaleString'', ''toLocaleString''),
      (''toString'', ''toString''),
      (''valueOf'', ''valueOf''),
      (''__defineGetter__'', ''__defineGetter__''),
      (''__defineSetter__'', ''__defineSetter__''),
      (''__lookupGetter__'', ''__lookupGetter__''),
      (''__lookupSetter__'', ''__lookupSetter__''),
      (''__proto__'', ''undefined'')]"

datatype js_value = Object3D object3d | Inherited string

fun name_of :: "js_value \<Rightarrow> string" where
  "name_of (Object3D node) = name node"
| "name_of (Inherited printed) = printed"

definition js_get :: "bone_mapping \<Rightarrow> string \<Rightarrow> js_value option" where
  "js_get boneMapping key =
     (case map_of boneMapping key of
        Some node \<Rightarrow> Some (Object3D node)
      | None \<Rightarrow> map_option Inherited (map_of Object_prototype key))"

text \<open>
  The body of the loop over the bone names, once the node of \<open>boneName\<close> is known to be an
  \<open>Object3D\<close>: the name itself, its lower-case form and the common aliases.
\<close>

definition add_bone :: "string \<Rightarrow> object3d \<Rightarrow> bone_mapping \<Rightarrow> bone_mapping" where
  "add_bone boneName vrmBone m0 =
     (let m1 = AList.update boneName vrmBone m0;
          lowerName = toLowerCase boneName;
          m2 = AList.update lowerName vrmBone m1;
          m3 = (if str_includes lowerName ''spine''
                then AList.update ''spine'' vrmBone m2 else m2);
          m4 = (if str_includes lowerName ''neck''
                then AList.update ''neck'' vrmBone m3 else m3);
          m5 = (if str_includes lowerName ''head''
                then AList.update ''head'' vrmBone m4 else m4);
          m6 = (if str_includes lowerName ''lefthand''
                then AList.update ''left_hand'' vrmBone (AList.update ''hand_l'' vrmBone m5)
                else m5)
      in if str_includes lowerName ''righthand''
         then AList.update ''right_hand'' vrmBone (AList.update ''hand_r'' vrmBone m6)
         else m6)"

text \<open>
  The humanoid of a model answers \<open>getRawBoneNode\<close> with the node of a bone, or with
  \<open>null\<close> for a bone the model does not have. The loop throws on the first bone whose node
  is not an \<open>Object3D\<close>; the exception's message is the \<open>Inl\<close> result.
\<close>

type_synonym humanoid = "(string \<times> object3d) list"

definition getRawBoneNode :: "humanoid \<Rightarrow> string \<Rightarrow> object3d option" where
  "getRawBoneNode h boneName = map_of h boneName"

fun map_bones :: "humanoid \<Rightarrow> string list \<Rightarrow> bone_mapping \<Rightarrow> string + bone_mapping" where
  "map_bones h [] m = Inr m"
| "map_bones h (boneName # rest) m =
     (case getRawBoneNode h boneName of
        None \<Rightarrow> Inl ''VRM bone is not an Object3D''
      | Some vrmBone \<Rightarrow> map_bones h rest (add_bone boneName vrmBone m))"

section \<open>Retargeting the tracks of a clip\<close>

text \<open>
  The search for the node of a source bone name: the direct property read, then the first
  entry of the table whose lower-case key contains, or is contained in, the lower-case
  source name.
\<close>

definition close_match :: "string \<Rightarrow> string \<times> object3d \<Rightarrow> bool" where
  "close_match fbxNameLower entry =
     (str_includes fbxNameLower (toLowerCase (fst entry))
      \<or> str_includes (toLowerCase (fst entry)) fbxNameLower)"

definition find_vrmBone :: "bone_mapping \<Rightarrow> string \<Rightarrow> js_value option" where
  "find_vrmBone boneMapping fbxBoneName =
     (case js_get boneMapping fbxBoneName of
        Some v \<Rightarrow> Some v
      | None \<Rightarrow>
          (case find (close_match (toLowerCase fbxBoneName)) boneMapping of
             Some (key, bone) \<Rightarrow> Some (Object3D bone)
           | None \<Rightarrow> None))"

definition new_track_class :: "track_class \<Rightarrow> track_class" where
  "new_track_class c =
     (if c = QuaternionKeyframeTrack then QuaternionKeyframeTrack
      else if c = VectorKeyframeTrack then VectorKeyframeTrack
      else KeyframeTrack)"

text \<open>What one pass of the loop over the clip's tracks pushes onto \<open>tracks\<close>.\<close>

definition retarget_track :: "bone_mapping \<Rightarrow> keyframe_track \<Rightarrow> keyframe_track list" where
  "retarget_track boneMapping track =
     (case split (CHR ''.'') (track_name track) of
        fbxBoneName # property # _ \<Rightarrow>
          (case find_vrmBone boneMapping fbxBoneName of
             None \<Rightarrow> []
           | Some vrmBone \<Rightarrow>
               [\<lparr>track_class = new_track_class (track_class track),
                 track_name = name_of vrmBone @ ''.'' @ property,
                 track_times = track_times track,
                 track_values = track_values track\<rparr>])
      | _ \<Rightarrow> [])"

definition retarget :: "bone_mapping \<Rightarrow> keyframe_track list \<Rightarrow> keyframe_track list" where
  "retarget boneMapping ts = concat (map (retarget_track boneMapping) ts)"

section \<open>The model, its expressions and the animation mixer\<close>

text \<open>
  The expression manager of a model holds one weight for each expression the model
  defines. The library's \<open>setValue\<close> writes the weight of a defined expression,
  clamped to the range from 0 to 1 by its \<open>saturate\<close>, and ignores any other name;
  \<open>getValue\<close> reads a weight.
\<close>

type_synonym expression_manager = "(string \<times> real) list"

definition saturate :: "real \<Rightarrow> real" where
  "saturate x = max (min x 1) 0"

definition getValue :: "expression_manager \<Rightarrow> string \<Rightarrow> real option" where
  "getValue em expression = map_of em expression"

definition setValue :: "string \<Rightarrow> real \<Rightarrow> expression_manager \<Rightarrow> expression_manager" where
  "setValue expression weight em =
     map (\<lambda>(k, w). if k = expression then (k, saturate weight) else (k, w)) em"

record vrm =
  vrm_scene :: object3d
  humanoid :: "humanoid option"
  expressionManager :: "expression_manager option"

datatype loop_mode = LoopOnce | LoopRepeat | LoopPingPong

datatype repetitions = Infinity | Finite nat

datatype fading = FadeIn real | FadeOut real

record animation_action =
  action_clip :: animation_clip
  loop :: loop_mode
  repetitions :: repetitions
  clampWhenFinished :: bool
  timeScale :: real
  playing :: bool
  fade :: "fading option"

text \<open>An action as \<open>clipAction\<close> creates it, and the methods the viewer calls on one.\<close>

definition new_action :: "animation_clip \<Rightarrow> animation_action" where
  "new_action clip =
     \<lparr>action_clip = clip, loop = LoopRepeat, repetitions = Infinity,
      clampWhenFinished = False, timeScale = 1, playing = False, fade = None\<rparr>"

definition reset :: "animation_action \<Rightarrow> animation_action" where
  "reset a = a\<lparr>fade := None\<rparr>"

definition fadeIn :: "real \<Rightarrow> animation_action \<Rightarrow> animation_action" where
  "fadeIn d a = a\<lparr>fade := Some (FadeIn d)\<rparr>"

definition fadeOut :: "real \<Rightarrow> animation_action \<Rightarrow> animation_action" where
  "fadeOut d a = a\<lparr>fade := Some (FadeOut d)\<rparr>"

definition play :: "animation_action \<Rightarrow> animation_action" where
  "play a = a\<lparr>playing := True\<rparr>"

definition setLoop :: "loop_mode \<Rightarrow> repetitions \<Rightarrow> animation_action \<Rightarrow> animation_action" where
  "setLoop m r a = a\<lparr>loop := m, repetitions := r\<rparr>"

record animation_mixer =
  root :: object3d
  mixer_actions :: "nat list"

text \<open>
  What a loader hands to its success callback, and what it hands to its error callback:
  an \<open>Error\<close> object with its message, some other object that has a \<open>message\<close>
  property (given here as \<open>String\<close> prints it), or any other value.
\<close>

record loaded_file =
  userData_vrm :: "vrm option"
  animations :: "animation_clip list"

datatype load_error = ErrorObject string | MessageCarrier string | OtherFailure

datatype load_request = ModelRequest string | FBXRequest string | GLTFRequest string

section \<open>The viewer\<close>

text \<open>
  The functions that the component hands out are named by a \<open>control\<close>; the container
  element and the animation-control ref hold such names in their slots.
\<close>

datatype control = LoadVRM | PlayAnimation | StopAnimation | SetExpression | ResetExpressions

record vrm_container =
  container_loadVRM :: "control option"
  container_playAnimation :: "control option"
  container_setExpression :: "control option"

record animation_control =
  control_playAnimation :: control
  control_stopAnimation :: control
  control_setExpression :: control
  control_resetExpressions :: control

text \<open>
  One record holds the variables of the effect's closure (\<open>currentVrm\<close>, \<open>mixer\<close>,
  \<open>activeAction\<close>, the children of \<open>scene\<close>), the component's state variables and its two
  refs. Actions are objects shared between the mixer and \<open>activeAction\<close>: \<open>actions\<close> is the
  store they live in, and both refer to an action by its position there. \<open>requests\<close> lists
  the loads started so far, in order.
\<close>

record viewer =
  currentVrm :: "vrm option"
  mixer :: "animation_mixer option"
  activeAction :: "nat option"
  actions :: "animation_action list"
  scene :: "object3d list"
  requests :: "load_request list"
  isLoading :: bool
  modelUrl :: string
  animationUrl :: string
  error :: string
  activeExpression :: string
  containerRef :: "vrm_container option"
  animationControlRef :: "animation_control option"

subsection \<open>Configuration\<close>

definition expressionWeight :: real where
  "expressionWeight = 1.0"

definition expressions :: "string list" where
  "expressions =
     [''neutral'', ''happy'', ''angry'', ''sad'', ''relaxed'', ''surprised'',
      ''aa'', ''ih'', ''ou'', ''ee'', ''oh'', ''blink'', ''blinkLeft'', ''blinkRight'']"

subsection \<open>Scene and action store\<close>

definition scene_add :: "object3d \<Rightarrow> object3d list \<Rightarrow> object3d list" where
  "scene_add obj children = removeAll obj children @ [obj]"

definition scene_remove :: "object3d \<Rightarrow> object3d list \<Rightarrow> object3d list" where
  "scene_remove obj children = removeAll obj children"

definition update_action ::
  "nat \<Rightarrow> (animation_action \<Rightarrow> animation_action) \<Rightarrow> animation_action list
   \<Rightarrow> animation_action list" where
  "update_action i f as = (if i < length as then as[i := f (as ! i)] else as)"

text \<open>
  \<open>mixer.clipAction(clip)\<close>: every clip the viewer passes is a freshly made object, so the
  mixer always creates a new action for it.
\<close>

definition clipAction :: "animation_clip \<Rightarrow> viewer \<Rightarrow> nat \<times> viewer" where
  "clipAction clip st =
     (let i = length (actions st)
      in (i, st\<lparr>actions := actions st @ [new_action clip],
                mixer := map_option (\<lambda>m. m\<lparr>mixer_actions := mixer_actions m @ [i]\<rparr>)
                           (mixer st)\<rparr>))"

definition ensure_mixer :: "vrm \<Rightarrow> viewer \<Rightarrow> viewer" where
  "ensure_mixer v st =
     (case mixer st of
        None \<Rightarrow> st\<lparr>mixer := Some \<lparr>root = vrm_scene v, mixer_actions = []\<rparr>\<rparr>
      | Some _ \<Rightarrow> st)"

subsection \<open>Expressions\<close>

definition has_manager :: "viewer \<Rightarrow> bool" where
  "has_manager st =
     (case currentVrm st of None \<Rightarrow> False | Some v \<Rightarrow> expressionManager v \<noteq> None)"

definition with_manager :: "(expression_manager \<Rightarrow> expression_manager) \<Rightarrow> viewer \<Rightarrow> viewer" where
  "with_manager f st =
     (case currentVrm st of
        None \<Rightarrow> st
      | Some v \<Rightarrow> st\<lparr>currentVrm := Some (v\<lparr>expressionManager := map_option f (expressionManager v)\<rparr>)\<rparr>)"

definition resetExpressions :: "viewer \<Rightarrow> viewer" where
  "resetExpressions st =
     (if \<not> has_manager st then st
      else (with_manager (fold (\<lambda>expr. setValue expr 0) expressions) st)
             \<lparr>activeExpression := []\<rparr>)"

definition setExpression :: "string \<Rightarrow> real \<Rightarrow> viewer \<Rightarrow> viewer" where
  "setExpression expression weight st =
     (if \<not> has_manager st then st
      else (with_manager (setValue expression weight) (resetExpressions st))
             \<lparr>activeExpression := expression\<rparr>)"

subsection \<open>Animations\<close>

definition fade_out_active :: "viewer \<Rightarrow> viewer" where
  "fade_out_active st =
     (case activeAction st of
        None \<Rightarrow> st
      | Some a \<Rightarrow> st\<lparr>actions := update_action a (fadeOut 0.5) (actions st),
                      activeAction := None\<rparr>)"

definition stopAnimation :: "viewer \<Rightarrow> viewer" where
  "stopAnimation st = fade_out_active st"

text \<open>The part of \<open>playAnimation\<close> that runs at the call: it ends by starting a load.\<close>

definition playAnimation :: "string \<Rightarrow> viewer \<Rightarrow> viewer" where
  "playAnimation url st =
     (if currentVrm st = None \<or> url = [] then st
      else let st1 = fade_out_active st;
               isFBX = endsWith (toLowerCase url) ''.fbx''
           in if isFBX then st1\<lparr>requests := requests st1 @ [FBXRequest url]\<rparr>
              else st1\<lparr>requests := requests st1 @ [GLTFRequest url]\<rparr>)"

definition build_boneMapping :: "string list \<Rightarrow> vrm \<Rightarrow> string + bone_mapping" where
  "build_boneMapping boneNames v =
     (case humanoid v of None \<Rightarrow> Inr [] | Some h \<Rightarrow> map_bones h boneNames [])"

definition fallback_clip :: animation_clip where
  "fallback_clip =
     (let duration = 2.0
      in \<lparr>clip_name = ''fallback-motion'', duration = duration,
          tracks = [\<lparr>track_class = VectorKeyframeTrack, track_name = ''.position'',
                     track_times = [0, duration / 2, duration],
                     track_values = [0, 0, 0, 0, 0.1, 0, 0, 0, 0]\<rparr>]\<rparr>)"

definition play_looping :: "animation_clip \<Rightarrow> viewer \<Rightarrow> viewer" where
  "play_looping clip st =
     (let (i, st1) = clipAction clip st;
          start = (\<lambda>action.
            play (fadeIn 0.5 (reset
              ((setLoop LoopRepeat Infinity (action\<lparr>clampWhenFinished := False\<rparr>))
                 \<lparr>timeScale := 1.0\<rparr>))))
      in st1\<lparr>actions := update_action i start (actions st1), activeAction := Some i\<rparr>)"

definition play_clip :: "animation_clip \<Rightarrow> viewer \<Rightarrow> viewer" where
  "play_clip clip st =
     (let (i, st1) = clipAction clip st
      in st1\<lparr>actions := update_action i (\<lambda>action. play (fadeIn 0.5 (reset action)))
                          (actions st1),
             activeAction := Some i\<rparr>)"

text \<open>
  The success callback of the FBX load. \<open>boneNames\<close> stands for the values of the
  library's enumeration of humanoid bone names, in the order \<open>Object.values\<close> lists them.
\<close>

definition fbx_onLoad :: "string list \<Rightarrow> loaded_file \<Rightarrow> viewer \<Rightarrow> viewer" where
  "fbx_onLoad boneNames fbx st =
     (case currentVrm st of
        None \<Rightarrow> st
      | Some v \<Rightarrow>
          (let st1 = ensure_mixer v st
           in case animations fbx of
                [] \<Rightarrow> st1\<lparr>error := ''No animation found in the FBX file''\<rparr>
              | first # _ \<Rightarrow>
                  (case build_boneMapping boneNames v of
                     Inl message \<Rightarrow> st1\<lparr>error := ''Error applying animation: '' @ message\<rparr>
                   | Inr boneMapping \<Rightarrow>
                       (let ts = retarget boneMapping (tracks first)
                        in if length ts = 0 then play_looping fallback_clip st1
                           else play_looping
                                  \<lparr>clip_name = ''retargeted-animation'',
                                   duration = duration first, tracks = ts\<rparr> st1))))"

definition error_message :: "load_error \<Rightarrow> string" where
  "error_message e =
     (case e of
        ErrorObject m \<Rightarrow> m
      | MessageCarrier m \<Rightarrow> m
      | OtherFailure \<Rightarrow> ''Unknown error'')"

definition fbx_onError :: "load_error \<Rightarrow> viewer \<Rightarrow> viewer" where
  "fbx_onError e st = st\<lparr>error := ''Failed to load animation: '' @ error_message e\<rparr>"

definition gltf_onLoad :: "loaded_file \<Rightarrow> viewer \<Rightarrow> viewer" where
  "gltf_onLoad gltf st =
     (case currentVrm st of
        None \<Rightarrow> st
      | Some v \<Rightarrow>
          (let st1 = ensure_mixer v st
           in case animations gltf of
                [] \<Rightarrow> st1
              | clip # _ \<Rightarrow> play_clip clip st1))"

definition gltf_onError :: "load_error \<Rightarrow> viewer \<Rightarrow> viewer" where
  "gltf_onError e st = st\<lparr>error := ''Failed to load animation: '' @ error_message e\<rparr>"

subsection \<open>Loading a model\<close>

definition loadVRM :: "string \<Rightarrow> viewer \<Rightarrow> viewer" where
  "loadVRM url st =
     (if url = [] then st
      else let st1 = st\<lparr>isLoading := True, error := []\<rparr>;
               st2 = (case currentVrm st1 of
                        None \<Rightarrow> st1
                      | Some v \<Rightarrow> st1\<lparr>scene := scene_remove (vrm_scene v) (scene st1),
                                      currentVrm := None\<rparr>);
               st3 = st2\<lparr>mixer := None, activeAction := None\<rparr>;
               st4 = resetExpressions st3
           in st4\<lparr>requests := requests st4 @ [ModelRequest url]\<rparr>)"

text \<open>
  The older component of \<open>page.tsx\<close> is the same viewer without animations and
  expressions. Its \<open>loadVRM\<close> clears the previous model and starts the load; its two
  callbacks are those of the model load below.
\<close>

definition page_loadVRM :: "string \<Rightarrow> viewer \<Rightarrow> viewer" where
  "page_loadVRM url st =
     (if url = [] then st
      else let st1 = st\<lparr>isLoading := True, error := []\<rparr>;
               st2 = (case currentVrm st1 of
                        None \<Rightarrow> st1
                      | Some v \<Rightarrow> st1\<lparr>scene := scene_remove (vrm_scene v) (scene st1),
                                      currentVrm := None\<rparr>)
           in st2\<lparr>requests := requests st2 @ [ModelRequest url]\<rparr>)"

text \<open>
  The success callback of the model load. The scene of a loaded model is an \<open>Object3D\<close>
  by its type, so the check before \<open>scene.add\<close> cannot fail; shadows, materials and the
  centring of the model belong to the rendering and are left out.
\<close>

definition vrm_onLoad :: "loaded_file \<Rightarrow> viewer \<Rightarrow> viewer" where
  "vrm_onLoad gltf st =
     (case userData_vrm gltf of
        Some v \<Rightarrow> st\<lparr>currentVrm := Some v, scene := scene_add (vrm_scene v) (scene st)\<rparr>
      | None \<Rightarrow> st\<lparr>error := ''Failed to load VRM model: No VRM data found''\<rparr>)
     \<lparr>isLoading := False\<rparr>"

definition vrm_onError :: "load_error \<Rightarrow> viewer \<Rightarrow> viewer" where
  "vrm_onError e st =
     st\<lparr>error := ''Failed to load VRM model: '' @ error_message e, isLoading := False\<rparr>"

subsection \<open>Mounting the component and the handlers of the form\<close>

text \<open>
  The objects the effect puts into a new scene before any model: three lights, the floor
  and three walls.
\<close>

definition hemiLight :: object3d where "hemiLight = \<lparr>uuid = 0, name = []\<rparr>"
definition dirLight :: object3d where "dirLight = \<lparr>uuid = 1, name = []\<rparr>"
definition ambLight :: object3d where "ambLight = \<lparr>uuid = 2, name = []\<rparr>"
definition room_floor :: object3d where "room_floor = \<lparr>uuid = 3, name = []\<rparr>"
definition backWall :: object3d where "backWall = \<lparr>uuid = 4, name = []\<rparr>"
definition leftWall :: object3d where "leftWall = \<lparr>uuid = 5, name = []\<rparr>"
definition rightWall :: object3d where "rightWall = \<lparr>uuid = 6, name = []\<rparr>"

definition room :: "object3d list" where
  "room = [hemiLight, dirLight, ambLight, room_floor, backWall, leftWall, rightWall]"

text \<open>
  A call of one of the functions handed out. The form passes one argument; \<open>weight\<close> is
  the second argument of \<open>setExpression\<close>.
\<close>

fun invoke :: "control \<Rightarrow> string \<Rightarrow> real \<Rightarrow> viewer \<Rightarrow> viewer" where
  "invoke LoadVRM url weight st = loadVRM url st"
| "invoke PlayAnimation url weight st = playAnimation url st"
| "invoke StopAnimation arg weight st = stopAnimation st"
| "invoke SetExpression expression weight st = setExpression expression weight st"
| "invoke ResetExpressions arg weight st = resetExpressions st"

text \<open>
  The body of the effect: nothing happens without a container element; otherwise a new
  scene and new closure variables are made, the functions are handed out and the initial
  model is requested.
\<close>

definition mountEffect :: "viewer \<Rightarrow> viewer" where
  "mountEffect st =
     (case containerRef st of
        None \<Rightarrow> st
      | Some container \<Rightarrow>
          (let st1 = st\<lparr>scene := room, currentVrm := None, mixer := None,
                         activeAction := None, actions := []\<rparr>;
               st2 = st1\<lparr>animationControlRef :=
                           Some \<lparr>control_playAnimation = PlayAnimation,
                                 control_stopAnimation = StopAnimation,
                                 control_setExpression = SetExpression,
                                 control_resetExpressions = ResetExpressions\<rparr>\<rparr>;
               st3 = st2\<lparr>containerRef :=
                           Some (container\<lparr>container_loadVRM := Some LoadVRM,
                                           container_playAnimation := Some PlayAnimation,
                                           container_setExpression := Some SetExpression\<rparr>)\<rparr>
           in if modelUrl st3 \<noteq> [] then loadVRM (modelUrl st3) st3 else st3))"

definition call_container ::
  "(vrm_container \<Rightarrow> control option) \<Rightarrow> string \<Rightarrow> viewer \<Rightarrow> viewer" where
  "call_container slot arg st =
     (case containerRef st of
        None \<Rightarrow> st
      | Some container \<Rightarrow>
          (case slot container of
             None \<Rightarrow> st
           | Some f \<Rightarrow> invoke f arg expressionWeight st))"

definition handleLoadModel :: "viewer \<Rightarrow> viewer" where
  "handleLoadModel st =
     (if modelUrl st = [] then st else call_container container_loadVRM (modelUrl st) st)"

definition handlePlayAnimation :: "viewer \<Rightarrow> viewer" where
  "handlePlayAnimation st =
     (if animationUrl st = [] then st
      else call_container container_playAnimation (animationUrl st) st)"

definition handleStopAnimation :: "viewer \<Rightarrow> viewer" where
  "handleStopAnimation st =
     (case animationControlRef st of
        None \<Rightarrow> st
      | Some r \<Rightarrow> invoke (control_stopAnimation r) [] expressionWeight st)"

definition handleSetExpression :: "string \<Rightarrow> viewer \<Rightarrow> viewer" where
  "handleSetExpression expression st = call_container container_setExpression expression st"

definition handleResetExpressions :: "viewer \<Rightarrow> viewer" where
  "handleResetExpressions st =
     (case animationControlRef st of
        None \<Rightarrow> st
      | Some r \<Rightarrow> invoke (control_resetExpressions r) [] expressionWeight st)"

text \<open>The expression tab: one button for each preset, its label and its click handler.\<close>

definition expression_buttons :: "(string \<times> (viewer \<Rightarrow> viewer)) list" where
  "expression_buttons = map (\<lambda>expr. (expr, handleSetExpression expr)) expressions"

subsection \<open>The functions within reach of a form\<close>

text \<open>
  The container and the animation-control ref hold all the functions that the effect of
  the viewer with animations hands out.
\<close>

definition exposed :: "viewer \<Rightarrow> bool" where
  "exposed st =
     (containerRef st
        = Some \<lparr>container_loadVRM = Some LoadVRM, container_playAnimation = Some PlayAnimation,
                container_setExpression = Some SetExpression\<rparr>
      \<and> animationControlRef st
        = Some \<lparr>control_playAnimation = PlayAnimation, control_stopAnimation = StopAnimation,
                control_setExpression = SetExpression,
                control_resetExpressions = ResetExpressions\<rparr>)"

subsection \<open>The viewer without animations\<close>

text \<open>
  The older component (\<open>page.tsx\<close>) has a container ref and no other. Its effect makes
  the scene and sets one property of the container element, \<open>loadVRM\<close>, to a function that
  passes its argument on to the \<open>loadVRM\<close> of that component; then it requests the initial
  model. The properties set on the element are kept by name, in the order they were set.
\<close>

datatype page_control = PageLoadModel

type_synonym page_container = "(string \<times> page_control) list"

fun page_invoke :: "page_control \<Rightarrow> string \<Rightarrow> viewer \<Rightarrow> viewer" where
  "page_invoke PageLoadModel url st = page_loadVRM url st"

definition page_mountEffect ::
  "page_container option \<Rightarrow> viewer \<Rightarrow> page_container option \<times> viewer" where
  "page_mountEffect ref st =
     (case ref of
        None \<Rightarrow> (None, st)
      | Some container \<Rightarrow>
          (let st1 = st\<lparr>scene := room, currentVrm := None\<rparr>;
               container1 = AList.update ''loadVRM'' PageLoadModel container
           in (Some container1,
               if modelUrl st1 \<noteq> [] then page_invoke PageLoadModel (modelUrl st1) st1
               else st1)))"

definition page_handleLoadModel :: "page_container option \<Rightarrow> viewer \<Rightarrow> viewer" where
  "page_handleLoadModel ref st =
     (if modelUrl st = [] then st
      else case ref of
             None \<Rightarrow> st
           | Some container \<Rightarrow>
               (case map_of container ''loadVRM'' of
                  None \<Rightarrow> st
                | Some f \<Rightarrow> page_invoke f (modelUrl st) st))"

subsection \<open>Loads and their answers\<close>

text \<open>
  A load that was started is answered later by exactly one of its two callbacks.
\<close>

datatype outcome = Loaded loaded_file | Failed load_error

definition complete :: "string list \<Rightarrow> load_request \<Rightarrow> outcome \<Rightarrow> viewer \<Rightarrow> viewer" where
  "complete boneNames request out st =
     (case request of
        ModelRequest url \<Rightarrow>
          (case out of Loaded file \<Rightarrow> vrm_onLoad file st | Failed e \<Rightarrow> vrm_onError e st)
      | FBXRequest url \<Rightarrow>
          (case out of Loaded file \<Rightarrow> fbx_onLoad boneNames file st | Failed e \<Rightarrow> fbx_onError e st)
      | GLTFRequest url \<Rightarrow>
          (case out of Loaded file \<Rightarrow> gltf_onLoad file st | Failed e \<Rightarrow> gltf_onError e st))"

text \<open>
  The runs in which no load of a model is started while a load of a model waits for its
  answer, and no load of an animation while a load of an animation waits for its. A state
  is kept together with the request for a model and the request for an animation that
  wait. A run begins when the effect has run, which requests the initial model; calls
  that start no load may come at any time, and a load of a model and a load of an
  animation may wait together and be answered in either order.
\<close>

inductive_set unhurried ::
  "string list \<Rightarrow> (viewer \<times> load_request option \<times> load_request option) set"
  for boneNames :: "string list" where
  mount: "containerRef st = Some c
          \<Longrightarrow> (mountEffect st,
               if modelUrl st = [] then None else Some (ModelRequest (modelUrl st)),
               None) \<in> unhurried boneNames"
| called: "(st, model, animation) \<in> unhurried boneNames
           \<Longrightarrow> requests (invoke f arg weight st) = requests st
           \<Longrightarrow> (invoke f arg weight st, model, animation) \<in> unhurried boneNames"
| model_requested: "(st, None, animation) \<in> unhurried boneNames
           \<Longrightarrow> requests (loadVRM url st) = requests st @ [request]
           \<Longrightarrow> (loadVRM url st, Some request, animation) \<in> unhurried boneNames"
| animation_requested: "(st, model, None) \<in> unhurried boneNames
           \<Longrightarrow> requests (playAnimation url st) = requests st @ [request]
           \<Longrightarrow> (playAnimation url st, model, Some request) \<in> unhurried boneNames"
| model_answered: "(st, Some request, animation) \<in> unhurried boneNames
           \<Longrightarrow> (complete boneNames request out st, None, animation)
               \<in> unhurried boneNames"
| animation_answered: "(st, model, Some request) \<in> unhurried boneNames
           \<Longrightarrow> (complete boneNames request out st, model, None)
               \<in> unhurried boneNames"

text \<open>
  The states the viewer can be in when calls and callbacks come in any order: a callback may
  run at any later time, whatever was called in between.
\<close>

inductive_set reachable :: "string list \<Rightarrow> viewer set" for boneNames :: "string list" where
  initial: "currentVrm st = None \<Longrightarrow> activeAction st = None \<Longrightarrow> st \<in> reachable boneNames"
| called: "st \<in> reachable boneNames \<Longrightarrow> invoke f arg weight st \<in> reachable boneNames"
| called_back: "st \<in> reachable boneNames
                \<Longrightarrow> complete boneNames request out st \<in> reachable boneNames"

definition attached_to_model :: "viewer \<Rightarrow> bool" where
  "attached_to_model st = (activeAction st = None \<or> currentVrm st \<noteq> None)"

subsection \<open>What is on show\<close>

text \<open>
  The models in the scene are its children other than the room. The actions at work in
  the mixer are those that were started and have not been told to fade out.
\<close>

definition models_in_scene :: "viewer \<Rightarrow> object3d list" where
  "models_in_scene st = filter (\<lambda>obj. obj \<notin> set room) (scene st)"

definition fading_out :: "animation_action \<Rightarrow> bool" where
  "fading_out a = (case fade a of Some (FadeOut d) \<Rightarrow> True | _ \<Rightarrow> False)"

definition at_work :: "viewer \<Rightarrow> nat \<Rightarrow> bool" where
  "at_work st i =
     (i < length (actions st) \<and> playing (actions st ! i) \<and> \<not> fading_out (actions st ! i))"

definition active_actions :: "viewer \<Rightarrow> nat list" where
  "active_actions st =
     (case mixer st of None \<Rightarrow> [] | Some m \<Rightarrow> filter (at_work st) (mixer_actions m))"

subsection \<open>The parts of a track name\<close>



text \<open>
  The match the retargeting is meant to find in the table: the entry under the very name,
  else the first entry whose key and the name contain one another when case is ignored.
\<close>

definition table_match :: "bone_mapping \<Rightarrow> string \<Rightarrow> object3d option" where
  "table_match table bone =
     (case map_of table bone of
        Some node \<Rightarrow> Some node
      | None \<Rightarrow>
          map_option snd
            (find (\<lambda>entry. sublist (toLowerCase (fst entry)) (toLowerCase bone)
                          \<or> sublist (toLowerCase bone) (toLowerCase (fst entry))) table))"

subsection \<open>An action that has been started\<close>

text \<open>
  The state after a clip was given to the mixer and its action started: the new action
  is the last of the store and of the mixer, and it is the active one.
\<close>

definition started :: "animation_clip \<Rightarrow> viewer \<Rightarrow> viewer" where
  "started clip st =
     st\<lparr>actions := actions st @
            [\<lparr>action_clip = clip, loop = LoopRepeat, repetitions = Infinity,
              clampWhenFinished = False, timeScale = 1, playing = True,
              fade = Some (FadeIn 0.5)\<rparr>],
        mixer := map_option
                   (\<lambda>m. m\<lparr>mixer_actions := mixer_actions m @ [length (actions st)]\<rparr>)
                   (mixer st),
        activeAction := Some (length (actions st))\<rparr>"

subsection \<open>A viewer in order\<close>

text \<open>
  Every model in the scene is the scene of the current model and is there once; the
  mixer names each of its actions once and only actions of the store; and every action
  at work in the mixer is the active one.
\<close>

definition orderly :: "viewer \<Rightarrow> bool" where
  "orderly st =
     (distinct (models_in_scene st)
      \<and> set (models_in_scene st) \<subseteq> set_option (map_option vrm_scene (currentVrm st))
      \<and> (case mixer st of
            None \<Rightarrow> True
          | Some m \<Rightarrow> distinct (mixer_actions m)
                      \<and> list_all (\<lambda>i. i < length (actions st)) (mixer_actions m))
      \<and> set (active_actions st) \<subseteq> set_option (activeAction st))"

text \<open>
  What holds while loads wait for their answers: the viewer is in order; while the load of
  a model waits there is no current model and no model in the scene; and while the load of
  an animation waits no action is active and none is at work in the mixer.
\<close>

definition waiting_in_order ::
  "viewer \<Rightarrow> load_request option \<Rightarrow> load_request option \<Rightarrow> bool" where
  "waiting_in_order st model animation =
     (orderly st
      \<and> (case model of
            None \<Rightarrow> True
          | Some request \<Rightarrow>
              (\<exists>url. request = ModelRequest url)
              \<and> currentVrm st = None \<and> models_in_scene st = [])
      \<and> (case animation of
            None \<Rightarrow> True
          | Some request \<Rightarrow>
              (\<exists>url. request = FBXRequest url \<or> request = GLTFRequest url)
              \<and> activeAction st = None \<and> active_actions st = []))"

section \<open>Example inputs\<close>

text \<open>
  A small model with three humanoid bones and four expressions (three presets and one of
  its own), the bone names that go with it, and the component before and after its effect
  has run and the model has arrived.
\<close>

definition example_vrm :: vrm where
  "example_vrm =
     \<lparr>vrm_scene = \<lparr>uuid = 10, name = ''Root''\<rparr>,
      humanoid = Some [(''hips'', \<lparr>uuid = 11, name = ''J_Bip_C_Hips''\<rparr>),
                       (''spine'', \<lparr>uuid = 12, name = ''J_Bip_C_Spine''\<rparr>),
                       (''leftHand'', \<lparr>uuid = 13, name = ''J_Bip_L_Hand''\<rparr>)],
      expressionManager =
        Some [(''neutral'', 0), (''happy'', 0), (''blink'', 0), (''wink'', 0)]\<rparr>"

definition example_boneNames :: "string list" where
  "example_boneNames = [''hips'', ''spine'', ''leftHand'']"

definition unmounted :: viewer where
  "unmounted =
     \<lparr>currentVrm = None, mixer = None, activeAction = None, actions = [], scene = [],
      requests = [], isLoading = False, modelUrl = ''/models/daw.vrm'', animationUrl = [],
      error = [], activeExpression = [],
      containerRef = Some \<lparr>container_loadVRM = None, container_playAnimation = None,
                            container_setExpression = None\<rparr>,
      animationControlRef = None\<rparr>"

definition mounted :: viewer where
  "mounted = mountEffect unmounted"

definition with_model :: viewer where
  "with_model = vrm_onLoad \<lparr>userData_vrm = Some example_vrm, animations = []\<rparr> mounted"

definition example_track :: "string \<Rightarrow> keyframe_track" where
  "example_track n =
     \<lparr>track_class = VectorKeyframeTrack, track_name = n,
      track_times = [0, 1], track_values = [0, 0, 0, 0, 1, 0]\<rparr>"

definition example_clip :: "string list \<Rightarrow> animation_clip" where
  "example_clip ns = \<lparr>clip_name = ''Take 001'', duration = 1, tracks = map example_track ns\<rparr>"

text \<open>The table that the loop over \<open>example_boneNames\<close> builds for \<open>example_vrm\<close>.\<close>

definition example_table :: bone_mapping where
  "example_table =
     [(''hips'', \<lparr>uuid = 11, name = ''J_Bip_C_Hips''\<rparr>),
      (''spine'', \<lparr>uuid = 12, name = ''J_Bip_C_Spine''\<rparr>),
      (''leftHand'', \<lparr>uuid = 13, name = ''J_Bip_L_Hand''\<rparr>),
      (''lefthand'', \<lparr>uuid = 13, name = ''J_Bip_L_Hand''\<rparr>),
      (''hand_l'', \<lparr>uuid = 13, name = ''J_Bip_L_Hand''\<rparr>),
      (''left_hand'', \<lparr>uuid = 13, name = ''J_Bip_L_Hand''\<rparr>)]"

definition smiling :: viewer where
  "smiling = setExpression ''happy'' expressionWeight with_model"

text \<open>
  Files as the loaders deliver them; a viewer in which the animation was stopped and an
  expression set while the load of an animation was waiting; a viewer in which a second
  animation was requested before the first one had arrived; and a viewer in which a
  second model was requested before the first one had arrived.
\<close>

definition model_file :: loaded_file where
  "model_file = \<lparr>userData_vrm = Some example_vrm, animations = []\<rparr>"

definition wave_file :: loaded_file where
  "wave_file = \<lparr>userData_vrm = None, animations = [example_clip [''hips.position'']]\<rparr>"

definition nod_file :: loaded_file where
  "nod_file = \<lparr>userData_vrm = None, animations = [example_clip [''spine.quaternion'']]\<rparr>"

definition interleaved :: viewer where
  "interleaved =
     gltf_onLoad wave_file
       (setExpression ''happy'' expressionWeight
          (stopAnimation (playAnimation ''/animations/wave.glb'' with_model)))"

definition overlapping :: viewer where
  "overlapping =
     gltf_onLoad nod_file
       (gltf_onLoad wave_file
          (playAnimation ''/animations/nod.glb''
             (playAnimation ''/animations/wave.glb'' with_model)))"

definition other_vrm :: vrm where
  "other_vrm =
     \<lparr>vrm_scene = \<lparr>uuid = 20, name = ''Root''\<rparr>, humanoid = None, expressionManager = None\<rparr>"

definition other_file :: loaded_file where
  "other_file = \<lparr>userData_vrm = Some other_vrm, animations = []\<rparr>"

definition two_models :: viewer where
  "two_models =
     vrm_onLoad other_file (vrm_onLoad model_file (loadVRM ''/models/other.vrm'' mounted))"

subsection \<open>Presets with a weight other than zero\<close>

definition nonzero_presets :: "expression_manager \<Rightarrow> string set" where
  "nonzero_presets em =
     {p \<in> set expressions. getValue em p \<noteq> None \<and> getValue em p \<noteq> Some 0}"

text \<open>The weight that the current model has for an expression, if it has one.\<close>

definition current_weight :: "viewer \<Rightarrow> string \<Rightarrow> real option" where
  "current_weight st expression =
     (case currentVrm st of
        None \<Rightarrow> None
      | Some v \<Rightarrow>
          (case expressionManager v of
             None \<Rightarrow> None
           | Some em \<Rightarrow> getValue em expression))"

section \<open>Facts about the example inputs\<close>

lemmas room_defs =
  room_def hemiLight_def dirLight_def ambLight_def room_floor_def backWall_def
  leftWall_def rightWall_def

lemma mounted_eq:
  "mounted =
     \<lparr>currentVrm = None, mixer = None, activeAction = None, actions = [], scene = room,
      requests = [ModelRequest ''/models/daw.vrm''], isLoading = True,
      modelUrl = ''/models/daw.vrm'', animationUrl = [], error = [], activeExpression = [],
      containerRef = Some \<lparr>container_loadVRM = Some LoadVRM,
                            container_playAnimation = Some PlayAnimation,
                            container_setExpression = Some SetExpression\<rparr>,
      animationControlRef = Some \<lparr>control_playAnimation = PlayAnimation,
                                   control_stopAnimation = StopAnimation,
                                   control_setExpression = SetExpression,
                                   control_resetExpressions = ResetExpressions\<rparr>\<rparr>"
  by (simp add: mounted_def unmounted_def mountEffect_def loadVRM_def resetExpressions_def
      has_manager_def Let_def)

lemma with_model_eq:
  "with_model =
     mounted\<lparr>currentVrm := Some example_vrm, scene := room @ [vrm_scene example_vrm],
             isLoading := False\<rparr>"
  by (simp add: with_model_def vrm_onLoad_def mounted_eq scene_add_def room_defs
      example_vrm_def)

section \<open>Failed loads\<close>

lemma requests_play_looping: "requests (play_looping c st) = requests st"
  by (simp add: play_looping_def clipAction_def Let_def)

lemma requests_play_clip: "requests (play_clip c st) = requests st"
  by (simp add: play_clip_def clipAction_def Let_def)

lemma requests_ensure_mixer: "requests (ensure_mixer v st) = requests st"
  by (simp add: ensure_mixer_def split: option.splits)

lemma requests_complete: "requests (complete boneNames r out st) = requests st"
  by (simp add: complete_def vrm_onLoad_def vrm_onError_def fbx_onLoad_def fbx_onError_def
      gltf_onLoad_def gltf_onError_def requests_play_looping requests_play_clip
      requests_ensure_mixer Let_def
      split: load_request.splits outcome.splits option.splits list.splits sum.splits)

text \<open>
  Claim C5. A load that fails is answered by the error callback of its loader, which puts
  a plain string into the error state: \<open>Failed to load VRM model: \<close> or
  \<open>Failed to load animation: \<close> followed by the message of the failure (the message of an
  \<open>Error\<close> object is taken as it is), and \<open>Failed to load VRM model: No VRM data found\<close>
  when the file was read but holds no model. No callback starts a load, so nothing is
  tried again.
\<close>

theorem load_failures_are_surfaced:
  "error (complete boneNames (ModelRequest url) (Failed e) st)
     = ''Failed to load VRM model: '' @ error_message e
   \<and> error (complete boneNames (FBXRequest url) (Failed e) st)
     = ''Failed to load animation: '' @ error_message e
   \<and> error (complete boneNames (GLTFRequest url) (Failed e) st)
     = ''Failed to load animation: '' @ error_message e
   \<and> (userData_vrm gltf = None \<longrightarrow>
        error (complete boneNames (ModelRequest url) (Loaded gltf) st)
          = ''Failed to load VRM model: No VRM data found'')
   \<and> error_message (ErrorObject m) = m
   \<and> requests (complete boneNames request out st) = requests st"
  by (simp add: requests_complete)
    (simp add: complete_def vrm_onError_def fbx_onError_def gltf_onError_def vrm_onLoad_def
      error_message_def)

theorem load_failures_are_surfaced_witness:
  "userData_vrm \<lparr>userData_vrm = None, animations = []\<rparr> = None
   \<and> error (complete example_boneNames (ModelRequest ''/models/cube.glb'')
        (Loaded \<lparr>userData_vrm = None, animations = []\<rparr>) mounted)
     = ''Failed to load VRM model: No VRM data found''
   \<and> error (complete example_boneNames (ModelRequest ''/models/cube.glb'')
        (Failed (ErrorObject ''Not Found'')) mounted)
     = ''Failed to load VRM model: Not Found''"
  using load_failures_are_surfaced
    [where boneNames = example_boneNames and url = "''/models/cube.glb''"
       and e = "ErrorObject ''Not Found''" and st = mounted
       and gltf = "\<lparr>userData_vrm = None, animations = []\<rparr>" and m = "''Not Found''"]
  by simp

section \<open>The loader chosen for an animation\<close>





section \<open>Expressions\<close>

lemma saturate_zero: "saturate 0 = 0"
  by (simp add: saturate_def)

lemma saturate_one: "saturate 1 = 1"
  by (simp add: saturate_def)

lemma saturate_cases:
  "saturate x = (if x < 0 then 0 else if 1 < x then 1 else x)"
  by (simp add: saturate_def)

lemma getValue_setValue:
  "getValue (setValue n w em) k
     = (if k = n then map_option (\<lambda>_. saturate w) (getValue em k) else getValue em k)"
  by (induction em) (auto simp: getValue_def setValue_def)

lemma getValue_reset:
  "getValue (fold (\<lambda>expr. setValue expr 0) xs em) k
     = (if k \<in> set xs then map_option (\<lambda>_. 0) (getValue em k) else getValue em k)"
proof (induction xs arbitrary: em)
  case Nil
  then show ?case by simp
next
  case (Cons x xs)
  show ?case
    by (cases "getValue em k") (auto simp: Cons getValue_setValue saturate_zero)
qed

lemma resetExpressions_with_manager:
  "currentVrm st = Some v \<Longrightarrow> expressionManager v = Some em \<Longrightarrow>
   resetExpressions st
     = st\<lparr>currentVrm := Some (v\<lparr>expressionManager :=
              Some (fold (\<lambda>expr. setValue expr 0) expressions em)\<rparr>),
           activeExpression := []\<rparr>"
  by (simp add: resetExpressions_def has_manager_def with_manager_def)

lemma setExpression_with_manager:
  "currentVrm st = Some v \<Longrightarrow> expressionManager v = Some em \<Longrightarrow>
   setExpression e w st
     = st\<lparr>currentVrm := Some (v\<lparr>expressionManager :=
              Some (setValue e w (fold (\<lambda>expr. setValue expr 0) expressions em))\<rparr>),
           activeExpression := e\<rparr>"
  by (simp add: setExpression_def resetExpressions_with_manager has_manager_def
      with_manager_def)

lemma nonzero_after_set:
  "nonzero_presets (setValue e w (fold (\<lambda>expr. setValue expr 0) expressions em)) \<subseteq> {e}"
  by (auto simp: nonzero_presets_def getValue_setValue getValue_reset split: if_splits)

lemma with_model_vrm: "currentVrm with_model = Some example_vrm"
  by (simp add: with_model_eq)

lemma example_manager:
  "expressionManager example_vrm
     = Some [(''neutral'', 0), (''happy'', 0), (''blink'', 0), (''wink'', 0)]"
  by (simp add: example_vrm_def)

lemma happy_weights:
  "setValue ''happy'' expressionWeight (fold (\<lambda>expr. setValue expr 0) expressions
      [(''neutral'', 0), (''happy'', 0), (''blink'', 0), (''wink'', 0)])
    = [(''neutral'', 0), (''happy'', 1), (''blink'', 0), (''wink'', 0)]"
  by (simp add: expressions_def setValue_def expressionWeight_def saturate_def)

lemma smiling_eq:
  "smiling =
     with_model\<lparr>currentVrm := Some (example_vrm\<lparr>expressionManager :=
                  Some [(''neutral'', 0), (''happy'', 1), (''blink'', 0), (''wink'', 0)]\<rparr>),
                activeExpression := ''happy''\<rparr>"
  unfolding smiling_def
  by (simp only: setExpression_with_manager [OF with_model_vrm example_manager]
      happy_weights)

lemma clamped_happy_weights:
  "setValue ''happy'' 2.5 (fold (\<lambda>expr. setValue expr 0) expressions
      [(''neutral'', 0), (''happy'', 0), (''blink'', 0), (''wink'', 0)])
    = [(''neutral'', 0), (''happy'', 1), (''blink'', 0), (''wink'', 0)]"
  by (simp add: expressions_def setValue_def saturate_def)

text \<open>
  Claim C10, as the claim has it: \<open>setExpression\<close> sets the requested expression to the
  weight it is given. Called with the weight 2.5 for \<open>happy\<close>, it leaves \<open>happy\<close> at the
  weight 1: the expression manager clamps what it stores.
\<close>

theorem setExpression_stores_clamped_weight:
  "current_weight (setExpression ''happy'' 2.5 with_model) ''happy'' = Some 1
   \<and> current_weight (setExpression ''happy'' 2.5 with_model) ''happy'' \<noteq> Some 2.5"
proof -
  have "setExpression ''happy'' 2.5 with_model
      = with_model\<lparr>currentVrm := Some (example_vrm\<lparr>expressionManager :=
                     Some [(''neutral'', 0), (''happy'', 1), (''blink'', 0), (''wink'', 0)]\<rparr>),
                   activeExpression := ''happy''\<rparr>"
    by (simp only: setExpression_with_manager [OF with_model_vrm example_manager]
        clamped_happy_weights)
  then show ?thesis
    by (simp add: current_weight_def getValue_def)
qed

text \<open>
  Claim C10, amended. \<open>setExpression\<close> does nothing without a model or without an
  expression manager. Otherwise it first sets every preset of the fixed list to 0 and then
  writes, under the name it was given, the weight it was given clamped to the range from
  0 to 1 (a weight within the range as it is), so that afterwards no preset other than
  that name has a weight different from 0: at most one preset has. The form calls it with
  one argument, and the weight is then 1.
\<close>

theorem setExpression_exclusive:
  "(\<not> has_manager st \<longrightarrow> setExpression expression weight st = st)
   \<and> (currentVrm st = Some v \<and> expressionManager v = Some em \<longrightarrow>
        setExpression expression weight st
          = st\<lparr>currentVrm := Some (v\<lparr>expressionManager :=
                   Some (setValue expression weight
                          (fold (\<lambda>expr. setValue expr 0) expressions em))\<rparr>),
                activeExpression := expression\<rparr>)
   \<and> (\<forall>p \<in> set expressions.
        getValue (fold (\<lambda>expr. setValue expr 0) expressions em) p
          = map_option (\<lambda>_. 0) (getValue em p))
   \<and> getValue (setValue expression weight (fold (\<lambda>expr. setValue expr 0) expressions em))
        expression
        = map_option (\<lambda>_. saturate weight) (getValue em expression)
   \<and> saturate weight = (if weight < 0 then 0 else if 1 < weight then 1 else weight)
   \<and> nonzero_presets (setValue expression weight
        (fold (\<lambda>expr. setValue expr 0) expressions em)) \<subseteq> {expression}
   \<and> card (nonzero_presets (setValue expression weight
        (fold (\<lambda>expr. setValue expr 0) expressions em))) \<le> 1
   \<and> handleSetExpression expression st
        = (case containerRef st of
             None \<Rightarrow> st
           | Some c \<Rightarrow>
               (case container_setExpression c of
                  None \<Rightarrow> st
                | Some f \<Rightarrow> invoke f expression 1 st))"
proof -
  let ?em = "setValue expression weight (fold (\<lambda>expr. setValue expr 0) expressions em)"
  have sub: "nonzero_presets ?em \<subseteq> {expression}"
    by (rule nonzero_after_set)
  then have "card (nonzero_presets ?em) \<le> card {expression}"
    by (intro card_mono) simp_all
  then have card: "card (nonzero_presets ?em) \<le> 1"
    by simp
  have noop: "\<not> has_manager st \<longrightarrow> setExpression expression weight st = st"
    by (simp add: setExpression_def)
  have set: "currentVrm st = Some v \<and> expressionManager v = Some em \<longrightarrow>
        setExpression expression weight st
          = st\<lparr>currentVrm := Some (v\<lparr>expressionManager := Some ?em\<rparr>),
                activeExpression := expression\<rparr>"
    by (simp add: setExpression_with_manager)
  have zero: "\<forall>p \<in> set expressions.
        getValue (fold (\<lambda>expr. setValue expr 0) expressions em) p
          = map_option (\<lambda>_. 0) (getValue em p)"
    by (simp add: getValue_reset)
  have one: "getValue ?em expression
      = map_option (\<lambda>_. saturate weight) (getValue em expression)"
    by (cases "getValue em expression") (auto simp: getValue_setValue getValue_reset)
  have clamp: "saturate weight = (if weight < 0 then 0 else if 1 < weight then 1 else weight)"
    by (rule saturate_cases)
  have dflt: "handleSetExpression expression st
        = (case containerRef st of
             None \<Rightarrow> st
           | Some c \<Rightarrow>
               (case container_setExpression c of
                  None \<Rightarrow> st
                | Some f \<Rightarrow> invoke f expression 1 st))"
    by (simp add: handleSetExpression_def call_container_def expressionWeight_def
        split: option.splits)
  from noop set zero one clamp sub card dflt show ?thesis
    by blast
qed

theorem setExpression_exclusive_witness:
  "\<not> has_manager mounted \<and> setExpression ''happy'' 1 mounted = mounted
   \<and> currentVrm with_model = Some example_vrm
   \<and> expressionManager example_vrm
       = Some [(''neutral'', 0), (''happy'', 0), (''blink'', 0), (''wink'', 0)]
   \<and> activeExpression (setExpression ''happy'' 1 with_model) = ''happy''
   \<and> ''blink'' \<in> set expressions
   \<and> getValue (fold (\<lambda>expr. setValue expr 0) expressions
        [(''neutral'', 0), (''happy'', 0), (''blink'', 0), (''wink'', 0)]) ''blink'' = Some 0
   \<and> getValue (setValue ''happy'' 1 (fold (\<lambda>expr. setValue expr 0) expressions
        [(''neutral'', 0), (''happy'', 0), (''blink'', 0), (''wink'', 0)])) ''happy'' = Some 1"
proof -
  have none: "\<not> has_manager mounted"
    by (simp add: has_manager_def mounted_eq)
  have blink: "''blink'' \<in> set expressions"
    by (simp add: expressions_def)
  have old: "getValue [(''neutral'', 0), (''happy'', 0), (''blink'', 0), (''wink'', 0)]
      ''blink'' = Some 0"
    "getValue [(''neutral'', 0), (''happy'', 0), (''blink'', 0), (''wink'', 0)]
      ''happy'' = Some 0"
    by (simp_all add: getValue_def)
  from setExpression_exclusive
    [where st = mounted and expression = "''happy''" and weight = 1] none
  have a: "setExpression ''happy'' 1 mounted = mounted"
    by blast
  from setExpression_exclusive
    [where st = with_model and v = example_vrm and expression = "''happy''" and weight = 1
       and em = "[(''neutral'', 0), (''happy'', 0), (''blink'', 0), (''wink'', 0)]"]
    with_model_vrm example_manager blink old
  have b: "activeExpression (setExpression ''happy'' 1 with_model) = ''happy''"
    and c: "getValue (fold (\<lambda>expr. setValue expr 0) expressions
        [(''neutral'', 0), (''happy'', 0), (''blink'', 0), (''wink'', 0)]) ''blink'' = Some 0"
    and d: "getValue (setValue ''happy'' 1 (fold (\<lambda>expr. setValue expr 0) expressions
        [(''neutral'', 0), (''happy'', 0), (''blink'', 0), (''wink'', 0)])) ''happy'' = Some 1"
    by simp_all
  from none a with_model_vrm example_manager b blink c d show ?thesis
    by blast
qed

text \<open>
  Claim C6, as the claim has it: \<open>resetExpressions\<close> clears the active expression. It does
  not when no model is loaded: after \<open>happy\<close> was set and another model was requested,
  the call returns at its first line and \<open>happy\<close> stays the active expression.
\<close>

theorem resetExpressions_without_model_keeps_active:
  "\<not> activeExpression (resetExpressions (loadVRM ''/models/other.vrm'' smiling)) = []"
  by (simp add: smiling_eq loadVRM_def resetExpressions_def has_manager_def Let_def
      with_model_eq)

text \<open>
  Claim C6, amended. The presets are the fixed list of these 14 names, without repetition,
  and the expression tab has one button for each, labelled with the name and setting that
  expression. When a model with an expression manager is loaded, \<open>resetExpressions\<close>
  sets the weight of every preset of the list that the model defines to 0 and clears the
  active expression; without such a model it changes nothing.
\<close>

theorem expression_presets_and_reset:
  "expressions = [''neutral'', ''happy'', ''angry'', ''sad'', ''relaxed'', ''surprised'',
      ''aa'', ''ih'', ''ou'', ''ee'', ''oh'', ''blink'', ''blinkLeft'', ''blinkRight'']
   \<and> length expressions = 14
   \<and> distinct expressions
   \<and> map fst expression_buttons = expressions
   \<and> map snd expression_buttons = map handleSetExpression expressions
   \<and> (currentVrm st = Some v \<and> expressionManager v = Some em \<longrightarrow>
        resetExpressions st
          = st\<lparr>currentVrm := Some (v\<lparr>expressionManager :=
                   Some (fold (\<lambda>expr. setValue expr 0) expressions em)\<rparr>),
                activeExpression := []\<rparr>
        \<and> (\<forall>p \<in> set expressions.
              getValue (fold (\<lambda>expr. setValue expr 0) expressions em) p
                = map_option (\<lambda>_. 0) (getValue em p)))
   \<and> (\<not> has_manager st \<longrightarrow> resetExpressions st = st)"
proof -
  have list: "expressions = [''neutral'', ''happy'', ''angry'', ''sad'', ''relaxed'',
      ''surprised'', ''aa'', ''ih'', ''ou'', ''ee'', ''oh'', ''blink'', ''blinkLeft'',
      ''blinkRight'']"
    by (simp add: expressions_def)
  have len: "length expressions = 14"
    by (simp add: expressions_def)
  have dist: "distinct expressions"
    by (simp add: expressions_def)
  have labels: "map fst expression_buttons = expressions"
    by (simp add: expression_buttons_def comp_def)
  have handlers: "map snd expression_buttons = map handleSetExpression expressions"
    by (simp add: expression_buttons_def comp_def)
  have reset: "currentVrm st = Some v \<and> expressionManager v = Some em \<longrightarrow>
        resetExpressions st
          = st\<lparr>currentVrm := Some (v\<lparr>expressionManager :=
                   Some (fold (\<lambda>expr. setValue expr 0) expressions em)\<rparr>),
                activeExpression := []\<rparr>
        \<and> (\<forall>p \<in> set expressions.
              getValue (fold (\<lambda>expr. setValue expr 0) expressions em) p
                = map_option (\<lambda>_. 0) (getValue em p))"
    by (simp add: resetExpressions_with_manager getValue_reset)
  have noop: "\<not> has_manager st \<longrightarrow> resetExpressions st = st"
    by (simp add: resetExpressions_def)
  from list len dist labels handlers reset noop show ?thesis
    by blast
qed

theorem expression_presets_and_reset_witness:
  "currentVrm smiling
     = Some (example_vrm\<lparr>expressionManager :=
         Some [(''neutral'', 0), (''happy'', 1), (''blink'', 0), (''wink'', 0)]\<rparr>)
   \<and> activeExpression smiling = ''happy''
   \<and> activeExpression (resetExpressions smiling) = []
   \<and> ''happy'' \<in> set expressions
   \<and> getValue (fold (\<lambda>expr. setValue expr 0) expressions
        [(''neutral'', 0), (''happy'', 1), (''blink'', 0), (''wink'', 0)]) ''happy'' = Some 0
   \<and> \<not> has_manager mounted \<and> resetExpressions mounted = mounted"
proof -
  let ?v = "example_vrm\<lparr>expressionManager :=
         Some [(''neutral'', 0), (''happy'', 1), (''blink'', 0), (''wink'', 0)]\<rparr>"
  have v: "currentVrm smiling = Some ?v"
    by (simp add: smiling_eq)
  have em: "expressionManager ?v
      = Some [(''neutral'', 0), (''happy'', 1), (''blink'', 0), (''wink'', 0)]"
    by simp
  have active: "activeExpression smiling = ''happy''"
    by (simp add: smiling_eq)
  have happy: "''happy'' \<in> set expressions"
    by (simp add: expressions_def)
  have old: "getValue [(''neutral'', 0), (''happy'', 1), (''blink'', 0), (''wink'', 0)]
      ''happy'' = Some 1"
    by (simp add: getValue_def)
  have none: "\<not> has_manager mounted"
    by (simp add: has_manager_def mounted_eq)
  from expression_presets_and_reset
    [where st = smiling and v = ?v
       and em = "[(''neutral'', 0), (''happy'', 1), (''blink'', 0), (''wink'', 0)]"]
    v em happy old
  have a: "activeExpression (resetExpressions smiling) = []"
    and b: "getValue (fold (\<lambda>expr. setValue expr 0) expressions
        [(''neutral'', 0), (''happy'', 1), (''blink'', 0), (''wink'', 0)]) ''happy'' = Some 0"
    by simp_all
  from expression_presets_and_reset [where st = mounted] none
  have c: "resetExpressions mounted = mounted"
    by blast
  from v active a happy b none c show ?thesis
    by blast
qed

section \<open>Replacing the model\<close>

lemma loadVRM_keeps_activeExpression:
  "activeExpression (loadVRM url st) = activeExpression st"
  by (simp add: loadVRM_def resetExpressions_def has_manager_def Let_def
      split: option.splits)

text \<open>
  Claim C8, at the input where the code departs from it. \<open>happy\<close> is the active
  expression of the loaded model; \<open>loadVRM\<close> with another URL removes the model, but its
  call of \<open>resetExpressions\<close> comes after \<open>currentVrm\<close> was set to null and returns at
  once, so the active expression is still \<open>happy\<close> when the load begins.
\<close>

theorem loadVRM_leaves_expression_active:
  "activeExpression smiling = ''happy''
   \<and> currentVrm (loadVRM ''/models/other.vrm'' smiling) = None
   \<and> mixer (loadVRM ''/models/other.vrm'' smiling) = None
   \<and> activeAction (loadVRM ''/models/other.vrm'' smiling) = None
   \<and> activeExpression (loadVRM ''/models/other.vrm'' smiling) = ''happy''"
  by (simp add: smiling_eq loadVRM_def resetExpressions_def has_manager_def Let_def
      with_model_eq)

section \<open>Retargeting\<close>

subsection \<open>Splitting a track name\<close>





subsection \<open>Source names that no object inherits\<close>



subsection \<open>The example table\<close>

lemmas string_eval =
  toLowerCase_def lower_char_def str_includes_def sublist_code prefix_code

lemma example_table_built:
  "build_boneMapping example_boneNames example_vrm = Inr example_table"
  by (simp add: build_boneMapping_def example_boneNames_def example_vrm_def
      example_table_def getRawBoneNode_def add_bone_def Let_def string_eval)


lemma play_looping_eq:
  "play_looping clip st =
     st\<lparr>actions := actions st @
            [\<lparr>action_clip = clip, loop = LoopRepeat, repetitions = Infinity,
              clampWhenFinished = False, timeScale = 1, playing = True,
              fade = Some (FadeIn 0.5)\<rparr>],
        mixer := map_option
                   (\<lambda>m. m\<lparr>mixer_actions := mixer_actions m @ [length (actions st)]\<rparr>)
                   (mixer st),
        activeAction := Some (length (actions st))\<rparr>"
  by (simp add: play_looping_def clipAction_def update_action_def Let_def new_action_def
      play_def fadeIn_def reset_def setLoop_def)

subsection \<open>Building the table\<close>



text \<open>
  Claim C1, at the input where the code departs from it. The table built for the example
  model has no key that matches the source name \<open>constructor\<close>, neither as it is nor by
  containment. Yet the direct read \<open>boneMapping[fbxBoneName]\<close> finds the property
  \<open>constructor\<close> that every object inherits, a function whose name is \<open>Object\<close>; the
  pass emits a track named \<open>Object.position\<close>, and the callback plays a clip made of it.
\<close>

theorem retarget_matches_inherited_property:
  "build_boneMapping example_boneNames example_vrm = Inr example_table
   \<and> table_match example_table ''constructor'' = None
   \<and> retarget example_table [example_track ''constructor.position'']
       = [\<lparr>track_class = VectorKeyframeTrack, track_name = ''Object.position'',
           track_times = [0, 1], track_values = [0, 0, 0, 0, 1, 0]\<rparr>]
   \<and> map action_clip (actions (fbx_onLoad example_boneNames
        \<lparr>userData_vrm = None, animations = [example_clip [''constructor.position'']]\<rparr>
        with_model))
       = [\<lparr>clip_name = ''retargeted-animation'', duration = 1,
           tracks = [\<lparr>track_class = VectorKeyframeTrack, track_name = ''Object.position'',
             track_times = [0, 1], track_values = [0, 0, 0, 0, 1, 0]\<rparr>]\<rparr>]"
proof -
  have table: "build_boneMapping example_boneNames example_vrm = Inr example_table"
    by (rule example_table_built)
  have no_key: "table_match example_table ''constructor'' = None"
    by (simp add: table_match_def example_table_def string_eval)
  have out: "retarget example_table [example_track ''constructor.position'']
       = [\<lparr>track_class = VectorKeyframeTrack, track_name = ''Object.position'',
           track_times = [0, 1], track_values = [0, 0, 0, 0, 1, 0]\<rparr>]"
    by (simp add: retarget_def retarget_track_def example_track_def find_vrmBone_def
        js_get_def example_table_def Object_prototype_def new_track_class_def)
  have played: "map action_clip (actions (fbx_onLoad example_boneNames
        \<lparr>userData_vrm = None, animations = [example_clip [''constructor.position'']]\<rparr>
        with_model))
       = [\<lparr>clip_name = ''retargeted-animation'', duration = 1,
           tracks = [\<lparr>track_class = VectorKeyframeTrack, track_name = ''Object.position'',
             track_times = [0, 1], track_values = [0, 0, 0, 0, 1, 0]\<rparr>]\<rparr>]"
    by (simp add: fbx_onLoad_def with_model_eq mounted_eq table out example_clip_def
        play_looping_eq ensure_mixer_def Let_def)
  from table no_key out played show ?thesis
    by blast
qed

subsection \<open>When no track is mapped\<close>

lemma find_vrmBone_None_iff:
  "find_vrmBone table b = None
     \<longleftrightarrow> map_of table b = None \<and> map_of Object_prototype b = None
         \<and> find (close_match (toLowerCase b)) table = None"
  by (auto simp: find_vrmBone_def js_get_def split: option.splits)








section \<open>One model and one animation at a time\<close>

subsection \<open>Actions at work\<close>

lemma at_most_one: "distinct xs \<Longrightarrow> set xs \<subseteq> set_option x \<Longrightarrow> length xs \<le> 1"
proof -
  assume d: "distinct xs" and s: "set xs \<subseteq> set_option x"
  have "card (set_option x) \<le> 1"
    by (cases x) simp_all
  moreover have "card (set xs) \<le> card (set_option x)"
    using s by (intro card_mono) simp_all
  ultimately show ?thesis
    using d by (simp add: distinct_card)
qed

lemma at_work_fade_out:
  "at_work (st\<lparr>actions := update_action a (fadeOut d) (actions st), activeAction := None\<rparr>) i
     = (at_work st i \<and> i \<noteq> a)"
  by (auto simp: at_work_def update_action_def fadeOut_def fading_out_def nth_list_update)

lemma fade_out_active_quiet:
  assumes "set (active_actions st) \<subseteq> set_option (activeAction st)"
  shows "active_actions (fade_out_active st) = []"
proof (cases "activeAction st")
  case None
  with assms show ?thesis
    by (simp add: fade_out_active_def)
next
  case (Some a)
  with assms have only: "\<forall>i \<in> set (active_actions st). i = a"
    by auto
  show ?thesis
  proof (cases "mixer st")
    case None
    then show ?thesis
      by (simp add: fade_out_active_def active_actions_def Some)
  next
    case (Some m)
    with only have "\<forall>i \<in> set (mixer_actions m). at_work st i \<longrightarrow> i = a"
      by (simp add: active_actions_def)
    then show ?thesis
      using Some \<open>activeAction st = Some a\<close>
      by (simp add: fade_out_active_def active_actions_def at_work_fade_out filter_empty_conv)
  qed
qed

lemma fade_out_active_fields:
  "currentVrm (fade_out_active st) = currentVrm st"
  "scene (fade_out_active st) = scene st"
  "mixer (fade_out_active st) = mixer st"
  "activeAction (fade_out_active st) = None"
  "length (actions (fade_out_active st)) = length (actions st)"
  "requests (fade_out_active st) = requests st"
  by (simp_all add: fade_out_active_def update_action_def split: option.splits)

lemma models_in_scene_cong: "scene st' = scene st \<Longrightarrow> models_in_scene st' = models_in_scene st"
  by (simp add: models_in_scene_def)

lemma orderly_fade_out_active: "orderly st \<Longrightarrow> orderly (fade_out_active st)"
  by (simp add: orderly_def fade_out_active_quiet fade_out_active_fields
      models_in_scene_cong [of "fade_out_active st" st] split: option.splits)

lemma play_clip_eq:
  "play_clip clip st =
     st\<lparr>actions := actions st @
            [\<lparr>action_clip = clip, loop = LoopRepeat, repetitions = Infinity,
              clampWhenFinished = False, timeScale = 1, playing = True,
              fade = Some (FadeIn 0.5)\<rparr>],
        mixer := map_option
                   (\<lambda>m. m\<lparr>mixer_actions := mixer_actions m @ [length (actions st)]\<rparr>)
                   (mixer st),
        activeAction := Some (length (actions st))\<rparr>"
  by (simp add: play_clip_def clipAction_def update_action_def Let_def new_action_def
      play_def fadeIn_def reset_def)

lemma play_looping_started: "play_looping clip st = started clip st"
  by (simp add: play_looping_eq started_def)

lemma play_clip_started: "play_clip clip st = started clip st"
  by (simp add: play_clip_eq started_def)

lemma at_work_started:
  "at_work (started clip st) i = (at_work st i \<or> i = length (actions st))"
  by (auto simp: at_work_def started_def nth_append fading_out_def)

lemma orderly_started:
  assumes "orderly st" and "active_actions st = []"
  shows "orderly (started clip st)"
proof (cases "mixer st")
  case None
  with assms show ?thesis
    by (simp add: orderly_def started_def active_actions_def models_in_scene_def)
next
  case (Some m)
  from assms(1) Some have d: "distinct (mixer_actions m)"
    and below: "list_all (\<lambda>i. i < length (actions st)) (mixer_actions m)"
    by (simp_all add: orderly_def)
  from below have fresh_id: "length (actions st) \<notin> set (mixer_actions m)"
    by (auto simp: list_all_iff)
  from assms(2) Some have idle: "filter (at_work st) (mixer_actions m) = []"
    by (simp add: active_actions_def)
  have "filter (at_work (started clip st)) (mixer_actions m) = []"
    using idle fresh_id by (auto simp: filter_empty_conv at_work_started)
  moreover have "at_work (started clip st) (length (actions st))"
    by (simp add: at_work_started)
  moreover have "mixer (started clip st)
      = Some (m\<lparr>mixer_actions := mixer_actions m @ [length (actions st)]\<rparr>)"
    using Some by (simp add: started_def)
  ultimately have act: "active_actions (started clip st) = [length (actions st)]"
    by (simp add: active_actions_def)
  have mod: "models_in_scene (started clip st) = models_in_scene st"
    by (simp add: models_in_scene_def started_def)
  have cur: "currentVrm (started clip st) = currentVrm st"
    by (simp add: started_def)
  have mix: "mixer (started clip st)
      = Some (m\<lparr>mixer_actions := mixer_actions m @ [length (actions st)]\<rparr>)"
    using Some by (simp add: started_def)
  have len: "length (actions (started clip st)) = Suc (length (actions st))"
    by (simp add: started_def)
  have active: "activeAction (started clip st) = Some (length (actions st))"
    by (simp add: started_def)
  from below have below': "list_all (\<lambda>i. i < Suc (length (actions st))) (mixer_actions m)"
    by (auto simp: list_all_iff)
  from assms(1) show ?thesis
    unfolding orderly_def [of "started clip st"] act mod cur mix len active
    using d fresh_id below' by (simp add: orderly_def)
qed

subsection \<open>Callbacks\<close>

lemma at_work_error [simp]: "at_work (st\<lparr>error := e\<rparr>) = at_work st"
  by (simp add: at_work_def fun_eq_iff)

lemma at_work_requests [simp]: "at_work (st\<lparr>requests := r\<rparr>) = at_work st"
  by (simp add: at_work_def fun_eq_iff)

lemma active_actions_error [simp]: "active_actions (st\<lparr>error := e\<rparr>) = active_actions st"
  by (simp add: active_actions_def split: option.splits)

lemma orderly_error: "orderly (st\<lparr>error := e\<rparr>) = orderly st"
  by (simp add: orderly_def models_in_scene_def split: option.splits)

lemma ensure_mixer_quiet:
  "active_actions st = [] \<Longrightarrow> active_actions (ensure_mixer v st) = []"
  by (simp add: ensure_mixer_def active_actions_def at_work_def split: option.splits)

lemma orderly_ensure_mixer: "orderly st \<Longrightarrow> orderly (ensure_mixer v st)"
  by (auto simp: ensure_mixer_def orderly_def active_actions_def at_work_def
      models_in_scene_def split: option.splits)

lemma orderly_fbx_onLoad:
  assumes "orderly st" and "active_actions st = []"
  shows "orderly (fbx_onLoad boneNames fbx st)"
proof (cases "currentVrm st")
  case None
  with assms(1) show ?thesis
    by (simp add: fbx_onLoad_def)
next
  case (Some v)
  have ready: "orderly (ensure_mixer v st)" "active_actions (ensure_mixer v st) = []"
    using assms by (simp_all add: orderly_ensure_mixer ensure_mixer_quiet)
  then have "orderly (started clip (ensure_mixer v st))" for clip
    by (rule orderly_started)
  with ready(1) Some show ?thesis
    by (simp add: fbx_onLoad_def Let_def play_looping_started orderly_error
        split: list.splits sum.splits)
qed

lemma orderly_gltf_onLoad:
  assumes "orderly st" and "active_actions st = []"
  shows "orderly (gltf_onLoad gltf st)"
proof (cases "currentVrm st")
  case None
  with assms(1) show ?thesis
    by (simp add: gltf_onLoad_def)
next
  case (Some v)
  have ready: "orderly (ensure_mixer v st)" "active_actions (ensure_mixer v st) = []"
    using assms by (simp_all add: orderly_ensure_mixer ensure_mixer_quiet)
  then have "orderly (started clip (ensure_mixer v st))" for clip
    by (rule orderly_started)
  with ready(1) Some show ?thesis
    by (simp add: gltf_onLoad_def Let_def play_clip_started split: list.splits)
qed

lemma active_actions_requests [simp]:
  "active_actions (st\<lparr>requests := r\<rparr>) = active_actions st"
  by (simp add: active_actions_def split: option.splits)

lemma orderly_requests: "orderly (st\<lparr>requests := r\<rparr>) = orderly st"
  by (simp add: orderly_def models_in_scene_def split: option.splits)

subsection \<open>Calls and answers while loads wait\<close>

lemma loadVRM_eq:
  "url \<noteq> [] \<Longrightarrow>
   loadVRM url st =
     st\<lparr>isLoading := True, error := [],
        scene := (case currentVrm st of
                    None \<Rightarrow> scene st
                  | Some v \<Rightarrow> scene_remove (vrm_scene v) (scene st)),
        currentVrm := None, mixer := None, activeAction := None,
        requests := requests st @ [ModelRequest url]\<rparr>"
  by (simp add: loadVRM_def resetExpressions_def has_manager_def Let_def
      split: option.splits)

lemma loadVRM_clears:
  assumes "orderly st" and "url \<noteq> []"
  shows "orderly (loadVRM url st)"
    and "models_in_scene (loadVRM url st) = []"
    and "currentVrm (loadVRM url st) = None"
    and "mixer (loadVRM url st) = None"
proof -
  from assms(1) have
    sub: "set (models_in_scene st) \<subseteq> set_option (map_option vrm_scene (currentVrm st))"
    by (simp add: orderly_def)
  then show gone: "models_in_scene (loadVRM url st) = []"
    using assms(2)
    by (auto simp: loadVRM_eq models_in_scene_def scene_remove_def filter_empty_conv
        split: option.splits)
  show "currentVrm (loadVRM url st) = None" "mixer (loadVRM url st) = None"
    using assms(2) by (simp_all add: loadVRM_eq)
  then show "orderly (loadVRM url st)"
    using gone assms(2) by (simp add: orderly_def active_actions_def)
qed

lemma orderly_vrm_onError: "orderly st \<Longrightarrow> orderly (vrm_onError e st)"
  by (simp add: vrm_onError_def orderly_def models_in_scene_def active_actions_def
      at_work_def split: option.splits)

lemma orderly_with_manager: "orderly st \<Longrightarrow> orderly (with_manager f st)"
  by (auto simp: with_manager_def orderly_def models_in_scene_def active_actions_def
      at_work_def split: option.splits)

lemma orderly_activeExpression: "orderly (st\<lparr>activeExpression := e\<rparr>) = orderly st"
  by (simp add: orderly_def models_in_scene_def active_actions_def at_work_def
      split: option.splits)

lemma requests_with_manager: "requests (with_manager f st) = requests st"
  by (simp add: with_manager_def split: option.splits)

lemma orderly_fresh:
  assumes "currentVrm st = None" "mixer st = None" "activeAction st = None"
    "set (scene st) \<subseteq> set room"
  shows "orderly st"
proof -
  from assms(4) have "models_in_scene st = []"
    by (auto simp: models_in_scene_def filter_empty_conv)
  with assms(1-3) show ?thesis
    by (simp add: orderly_def active_actions_def)
qed

lemma orderly_distinct_active: "orderly st \<Longrightarrow> distinct (active_actions st)"
  by (auto simp: orderly_def active_actions_def split: option.splits)

lemma loadVRM_removes_model:
  "url \<noteq> [] \<Longrightarrow> currentVrm st = Some v \<Longrightarrow> vrm_scene v \<notin> set (scene (loadVRM url st))"
  by (simp add: loadVRM_eq scene_remove_def)

lemma playAnimation_fades_active:
  assumes "currentVrm st \<noteq> None" and "url \<noteq> []"
  shows "activeAction (playAnimation url st) = None"
    and "activeAction st = Some a \<Longrightarrow> a < length (actions st) \<Longrightarrow>
         fade (actions (playAnimation url st) ! a) = Some (FadeOut 0.5)"
  using assms
  by (auto simp: playAnimation_def Let_def fade_out_active_def update_action_def fadeOut_def
      split: option.splits)

lemma active_actions_cong:
  assumes "mixer st' = mixer st" and "actions st' = actions st"
  shows "active_actions st' = active_actions st"
proof -
  have "at_work st' = at_work st"
    using assms(2) by (simp add: at_work_def fun_eq_iff)
  with assms(1) show ?thesis
    by (simp add: active_actions_def split: option.splits)
qed

lemma orderly_vrm_onLoad:
  assumes "orderly st" and "models_in_scene st = []"
  shows "orderly (vrm_onLoad gltf st)"
proof -
  have acts: "active_actions (vrm_onLoad gltf st) = active_actions st"
    by (rule active_actions_cong) (simp_all add: vrm_onLoad_def split: option.splits)
  have rest: "mixer (vrm_onLoad gltf st) = mixer st" "actions (vrm_onLoad gltf st) = actions st"
    "activeAction (vrm_onLoad gltf st) = activeAction st"
    by (simp_all add: vrm_onLoad_def split: option.splits)
  have models: "distinct (models_in_scene (vrm_onLoad gltf st))
      \<and> set (models_in_scene (vrm_onLoad gltf st))
          \<subseteq> set_option (map_option vrm_scene (currentVrm (vrm_onLoad gltf st)))"
    using assms(2)
    by (auto simp: vrm_onLoad_def models_in_scene_def scene_add_def filter_empty_conv
        split: option.splits)
  from assms(1) models show ?thesis
    unfolding orderly_def [of "vrm_onLoad gltf st"] acts rest
    by (simp add: orderly_def)
qed

lemma vrm_callbacks_keep_actions:
  "activeAction (vrm_onLoad gltf st) = activeAction st"
  "active_actions (vrm_onLoad gltf st) = active_actions st"
  "activeAction (vrm_onError e st) = activeAction st"
  "active_actions (vrm_onError e st) = active_actions st"
proof -
  show "active_actions (vrm_onLoad gltf st) = active_actions st"
    by (rule active_actions_cong) (simp_all add: vrm_onLoad_def split: option.splits)
  show "active_actions (vrm_onError e st) = active_actions st"
    by (rule active_actions_cong) (simp_all add: vrm_onError_def)
qed (simp_all add: vrm_onLoad_def vrm_onError_def split: option.splits)

lemma vrm_onError_keeps_model:
  "currentVrm (vrm_onError e st) = currentVrm st"
  "models_in_scene (vrm_onError e st) = models_in_scene st"
  by (simp_all add: vrm_onError_def models_in_scene_def)

lemma animation_callbacks_keep_model:
  "currentVrm (fbx_onLoad boneNames fbx st) = currentVrm st"
  "models_in_scene (fbx_onLoad boneNames fbx st) = models_in_scene st"
  "currentVrm (fbx_onError e st) = currentVrm st"
  "models_in_scene (fbx_onError e st) = models_in_scene st"
  "currentVrm (gltf_onLoad gltf st) = currentVrm st"
  "models_in_scene (gltf_onLoad gltf st) = models_in_scene st"
  "currentVrm (gltf_onError e st) = currentVrm st"
  "models_in_scene (gltf_onError e st) = models_in_scene st"
  by (simp_all add: fbx_onLoad_def fbx_onError_def gltf_onLoad_def gltf_onError_def
      ensure_mixer_def play_looping_started play_clip_started started_def models_in_scene_def
      Let_def split: option.splits list.splits sum.splits)

lemma expressions_keep_rest:
  "scene (resetExpressions st) = scene st"
  "mixer (resetExpressions st) = mixer st"
  "actions (resetExpressions st) = actions st"
  "activeAction (resetExpressions st) = activeAction st"
  "(currentVrm (resetExpressions st) = None) = (currentVrm st = None)"
  "map_option vrm_scene (currentVrm (resetExpressions st)) = map_option vrm_scene (currentVrm st)"
  "scene (setExpression e w st) = scene st"
  "mixer (setExpression e w st) = mixer st"
  "actions (setExpression e w st) = actions st"
  "activeAction (setExpression e w st) = activeAction st"
  "(currentVrm (setExpression e w st) = None) = (currentVrm st = None)"
  "map_option vrm_scene (currentVrm (setExpression e w st)) = map_option vrm_scene (currentVrm st)"
  by (simp_all add: setExpression_def resetExpressions_def with_manager_def has_manager_def
      split: option.splits)

lemma orderly_resetExpressions: "orderly st \<Longrightarrow> orderly (resetExpressions st)"
  by (simp add: resetExpressions_def orderly_with_manager orderly_activeExpression)

lemma orderly_setExpression: "orderly st \<Longrightarrow> orderly (setExpression e w st)"
  by (simp add: setExpression_def orderly_resetExpressions orderly_with_manager
      orderly_activeExpression)

lemma loadVRM_request:
  assumes "requests (loadVRM url st) = requests st @ [request]"
  shows "url \<noteq> []" and "request = ModelRequest url"
proof -
  show "url \<noteq> []"
    using assms by (auto simp: loadVRM_def)
  then show "request = ModelRequest url"
    using assms by (simp add: loadVRM_eq)
qed

lemma loadVRM_quiet: "requests (loadVRM url st) = requests st \<Longrightarrow> loadVRM url st = st"
proof (cases "url = []")
  case True
  then show ?thesis
    by (simp add: loadVRM_def)
next
  case False
  assume "requests (loadVRM url st) = requests st"
  with False show ?thesis
    by (simp add: loadVRM_eq)
qed

lemma playAnimation_quiet:
  "requests (playAnimation url st) = requests st \<Longrightarrow> playAnimation url st = st"
  by (auto simp: playAnimation_def Let_def fade_out_active_fields split: if_splits)

lemma playAnimation_request:
  assumes "requests (playAnimation url st) = requests st @ [request]"
  shows "playAnimation url st = (fade_out_active st)\<lparr>requests := requests st @ [request]\<rparr>"
    and "request = FBXRequest url \<or> request = GLTFRequest url"
  using assms
  by (auto simp: playAnimation_def Let_def fade_out_active_fields split: if_splits)

lemma orderly_mountEffect:
  assumes "containerRef st = Some c"
  shows "orderly (mountEffect st)" and "currentVrm (mountEffect st) = None"
    and "models_in_scene (mountEffect st) = []"
proof -
  define st3 where "st3 = st\<lparr>scene := room, currentVrm := None, mixer := None,
      activeAction := None, actions := [],
      animationControlRef :=
        Some \<lparr>control_playAnimation = PlayAnimation, control_stopAnimation = StopAnimation,
              control_setExpression = SetExpression,
              control_resetExpressions = ResetExpressions\<rparr>,
      containerRef :=
        Some (c\<lparr>container_loadVRM := Some LoadVRM,
                container_playAnimation := Some PlayAnimation,
                container_setExpression := Some SetExpression\<rparr>)\<rparr>"
  have eq: "mountEffect st = (if modelUrl st \<noteq> [] then loadVRM (modelUrl st) st3 else st3)"
    using assms by (simp add: mountEffect_def Let_def st3_def)
  have o3: "orderly st3"
    by (rule orderly_fresh) (simp_all add: st3_def)
  have m3: "models_in_scene st3 = []" "currentVrm st3 = None"
    by (simp_all add: st3_def models_in_scene_def)
  show "orderly (mountEffect st)" "currentVrm (mountEffect st) = None"
    "models_in_scene (mountEffect st) = []"
    using o3 m3 loadVRM_clears [OF o3, of "modelUrl st"] by (simp_all add: eq)
qed

lemma waiting_called:
  assumes "waiting_in_order st model animation"
    and "requests (invoke f arg weight st) = requests st"
  shows "waiting_in_order (invoke f arg weight st) model animation"
proof (cases f)
  case LoadVRM
  with assms show ?thesis
    by (simp add: loadVRM_quiet)
next
  case PlayAnimation
  with assms show ?thesis
    by (simp add: playAnimation_quiet)
next
  case StopAnimation
  from assms(1) have o: "orderly st"
    by (simp add: waiting_in_order_def)
  then have "active_actions (fade_out_active st) = []"
    by (simp add: orderly_def fade_out_active_quiet)
  with assms(1) o StopAnimation show ?thesis
    by (simp add: waiting_in_order_def stopAnimation_def orderly_fade_out_active
        fade_out_active_fields models_in_scene_cong [of "fade_out_active st" st]
        split: option.splits)
next
  case SetExpression
  have "active_actions (setExpression arg weight st) = active_actions st"
    by (rule active_actions_cong) (simp_all add: expressions_keep_rest)
  with assms(1) SetExpression show ?thesis
    by (simp add: waiting_in_order_def orderly_setExpression expressions_keep_rest
        models_in_scene_cong [of "setExpression arg weight st" st] split: option.splits)
next
  case ResetExpressions
  have "active_actions (resetExpressions st) = active_actions st"
    by (rule active_actions_cong) (simp_all add: expressions_keep_rest)
  with assms(1) ResetExpressions show ?thesis
    by (simp add: waiting_in_order_def orderly_resetExpressions expressions_keep_rest
        models_in_scene_cong [of "resetExpressions st" st] split: option.splits)
qed

lemma waiting_model_requested:
  assumes "waiting_in_order st None animation"
    and "requests (loadVRM url st) = requests st @ [request]"
  shows "waiting_in_order (loadVRM url st) (Some request) animation"
proof -
  from assms(1) have o: "orderly st"
    by (simp add: waiting_in_order_def)
  note url = loadVRM_request [OF assms(2)]
  have "activeAction (loadVRM url st) = None"
    using url(1) by (simp add: loadVRM_eq)
  moreover have "active_actions (loadVRM url st) = []"
    using loadVRM_clears(4) [OF o url(1)] by (simp add: active_actions_def)
  ultimately show ?thesis
    using assms(1) loadVRM_clears [OF o url(1)] url(2)
    by (simp add: waiting_in_order_def split: option.splits)
qed

lemma waiting_animation_requested:
  assumes "waiting_in_order st model None"
    and "requests (playAnimation url st) = requests st @ [request]"
  shows "waiting_in_order (playAnimation url st) model (Some request)"
proof -
  from assms(1) have o: "orderly st"
    by (simp add: waiting_in_order_def)
  then have quiet: "active_actions (fade_out_active st) = []"
    by (simp add: orderly_def fade_out_active_quiet)
  note play = playAnimation_request [OF assms(2)]
  from assms(1) o quiet play(2) show ?thesis
    unfolding play(1)
    by (auto simp: waiting_in_order_def orderly_requests orderly_fade_out_active
        fade_out_active_fields models_in_scene_def split: option.splits)
qed

lemma waiting_model_answered:
  assumes "waiting_in_order st (Some request) animation"
  shows "waiting_in_order (complete boneNames request out st) None animation"
proof -
  from assms obtain url where r: "request = ModelRequest url"
    and o: "orderly st" and m: "models_in_scene st = []"
    by (auto simp: waiting_in_order_def)
  from o m have "orderly (vrm_onLoad gltf st)" for gltf
    by (rule orderly_vrm_onLoad)
  moreover from o have "orderly (vrm_onError e st)" for e
    by (rule orderly_vrm_onError)
  ultimately show ?thesis
    using assms r
    by (simp add: waiting_in_order_def complete_def vrm_callbacks_keep_actions
        split: outcome.splits option.splits)
qed

lemma waiting_animation_answered:
  assumes "waiting_in_order st model (Some request)"
  shows "waiting_in_order (complete boneNames request out st) model None"
proof -
  from assms have o: "orderly st" and q: "active_actions st = []"
    and r: "\<exists>url. request = FBXRequest url \<or> request = GLTFRequest url"
    by (auto simp: waiting_in_order_def)
  have "orderly (complete boneNames request out st)"
    using r orderly_fbx_onLoad [OF o q] orderly_gltf_onLoad [OF o q] o
    by (auto simp: complete_def fbx_onError_def gltf_onError_def orderly_error
        split: outcome.splits)
  moreover have "currentVrm (complete boneNames request out st) = currentVrm st"
    "models_in_scene (complete boneNames request out st) = models_in_scene st"
    using r by (auto simp: complete_def animation_callbacks_keep_model split: outcome.splits)
  ultimately show ?thesis
    using assms by (simp add: waiting_in_order_def split: option.splits)
qed

lemma waiting_mount:
  assumes "containerRef st = Some c"
  shows "waiting_in_order (mountEffect st)
     (if modelUrl st = [] then None else Some (ModelRequest (modelUrl st))) None"
  using orderly_mountEffect [OF assms] by (simp add: waiting_in_order_def)

lemma unhurried_waiting:
  "(st, model, animation) \<in> unhurried boneNames \<Longrightarrow> waiting_in_order st model animation"
proof (induction rule: unhurried.induct)
  case (mount st c)
  then show ?case by (rule waiting_mount)
next
  case (called st model animation f arg weight)
  then show ?case by (simp add: waiting_called)
next
  case (model_requested st animation url request)
  then show ?case by (simp add: waiting_model_requested)
next
  case (animation_requested st model url request)
  then show ?case by (simp add: waiting_animation_requested)
next
  case (model_answered st request animation out)
  then show ?case by (simp add: waiting_model_answered)
next
  case (animation_answered st model request out)
  then show ?case by (simp add: waiting_animation_answered)
qed


lemma waiting_one_each:
  assumes "waiting_in_order st model animation"
  shows "length (models_in_scene st) \<le> 1
      \<and> set (models_in_scene st) \<subseteq> set_option (map_option vrm_scene (currentVrm st))
      \<and> length (active_actions st) \<le> 1
      \<and> set (active_actions st) \<subseteq> set_option (activeAction st)"
proof -
  from assms have o: "orderly st"
    by (simp add: waiting_in_order_def)
  then have m: "distinct (models_in_scene st)"
    and ms: "set (models_in_scene st) \<subseteq> set_option (map_option vrm_scene (currentVrm st))"
    and as: "set (active_actions st) \<subseteq> set_option (activeAction st)"
    by (simp_all add: orderly_def)
  from o have a: "distinct (active_actions st)"
    by (rule orderly_distinct_active)
  from at_most_one [OF m ms] at_most_one [OF a as] ms as show ?thesis
    by simp
qed

subsection \<open>The example runs\<close>

lemma glb_urls:
  "\<not> endsWith (toLowerCase ''/animations/wave.glb'') ''.fbx''"
  "\<not> endsWith (toLowerCase ''/animations/nod.glb'') ''.fbx''"
  by (simp_all add: endsWith_def toLowerCase_def lower_char_def suffix_to_prefix)

lemma overlapping_eq:
  "overlapping =
     with_model\<lparr>requests := [ModelRequest ''/models/daw.vrm'',
                  GLTFRequest ''/animations/wave.glb'', GLTFRequest ''/animations/nod.glb''],
       mixer := Some \<lparr>root = vrm_scene example_vrm, mixer_actions = [0, 1]\<rparr>,
       actions := [\<lparr>action_clip = example_clip [''hips.position''], loop = LoopRepeat,
                    repetitions = Infinity, clampWhenFinished = False, timeScale = 1,
                    playing = True, fade = Some (FadeIn 0.5)\<rparr>,
                   \<lparr>action_clip = example_clip [''spine.quaternion''], loop = LoopRepeat,
                    repetitions = Infinity, clampWhenFinished = False, timeScale = 1,
                    playing = True, fade = Some (FadeIn 0.5)\<rparr>],
       activeAction := Some 1\<rparr>"
  by (simp add: overlapping_def with_model_eq mounted_eq playAnimation_def
      fade_out_active_def glb_urls Let_def gltf_onLoad_def ensure_mixer_def play_clip_eq
      wave_file_def nod_file_def)

lemma waiting_play_eq:
  "playAnimation ''/animations/wave.glb'' with_model
     = with_model\<lparr>requests := [ModelRequest ''/models/daw.vrm'',
                                 GLTFRequest ''/animations/wave.glb'']\<rparr>"
  by (simp add: with_model_eq mounted_eq playAnimation_def fade_out_active_def glb_urls
      Let_def)

lemma waiting_stop_eq:
  "stopAnimation (playAnimation ''/animations/wave.glb'' with_model)
     = playAnimation ''/animations/wave.glb'' with_model"
  unfolding waiting_play_eq
  by (simp add: stopAnimation_def fade_out_active_def with_model_eq mounted_eq)

lemma waiting_smile_eq:
  "setExpression ''happy'' expressionWeight
     (stopAnimation (playAnimation ''/animations/wave.glb'' with_model))
   = smiling\<lparr>requests := [ModelRequest ''/models/daw.vrm'',
                            GLTFRequest ''/animations/wave.glb'']\<rparr>"
proof -
  have v: "currentVrm (playAnimation ''/animations/wave.glb'' with_model) = Some example_vrm"
    by (simp add: waiting_play_eq with_model_vrm)
  show ?thesis
    unfolding waiting_stop_eq
    by (simp only: setExpression_with_manager [OF v example_manager] happy_weights)
      (simp add: waiting_play_eq smiling_eq)
qed

lemma interleaved_eq:
  "interleaved =
     smiling\<lparr>requests := [ModelRequest ''/models/daw.vrm'',
                  GLTFRequest ''/animations/wave.glb''],
       mixer := Some \<lparr>root = vrm_scene example_vrm, mixer_actions = [0]\<rparr>,
       actions := [\<lparr>action_clip = example_clip [''hips.position''], loop = LoopRepeat,
                    repetitions = Infinity, clampWhenFinished = False, timeScale = 1,
                    playing = True, fade = Some (FadeIn 0.5)\<rparr>],
       activeAction := Some 0\<rparr>"
  unfolding interleaved_def waiting_smile_eq
  by (simp add: smiling_eq with_model_eq mounted_eq gltf_onLoad_def ensure_mixer_def
      play_clip_eq wave_file_def Let_def example_vrm_def)

lemma requests_setExpression: "requests (setExpression e w st) = requests st"
  by (simp add: setExpression_def resetExpressions_def requests_with_manager)

lemma interleaved_unhurried: "(interleaved, None, None) \<in> unhurried example_boneNames"
proof -
  have c: "containerRef unmounted
      = Some \<lparr>container_loadVRM = None, container_playAnimation = None,
              container_setExpression = None\<rparr>"
    by (simp add: unmounted_def)
  from unhurried.mount [OF c, of example_boneNames]
  have "(mounted, Some (ModelRequest ''/models/daw.vrm''), None) \<in> unhurried example_boneNames"
    by (simp add: mounted_def unmounted_def)
  from unhurried.model_answered [OF this, of "Loaded model_file"]
  have "(with_model, None, None) \<in> unhurried example_boneNames"
    by (simp add: complete_def with_model_def model_file_def)
  from unhurried.animation_requested
    [OF this, of "''/animations/wave.glb''" "GLTFRequest ''/animations/wave.glb''"]
  have "(playAnimation ''/animations/wave.glb'' with_model, None,
      Some (GLTFRequest ''/animations/wave.glb'')) \<in> unhurried example_boneNames"
    unfolding waiting_play_eq by (simp add: with_model_eq mounted_eq)
  from unhurried.called [OF this, of StopAnimation "[]" expressionWeight]
  have "(stopAnimation (playAnimation ''/animations/wave.glb'' with_model), None,
      Some (GLTFRequest ''/animations/wave.glb'')) \<in> unhurried example_boneNames"
    by (simp add: stopAnimation_def fade_out_active_fields)
  from unhurried.called [OF this, of SetExpression "''happy''" expressionWeight]
  have "(setExpression ''happy'' expressionWeight
        (stopAnimation (playAnimation ''/animations/wave.glb'' with_model)), None,
      Some (GLTFRequest ''/animations/wave.glb'')) \<in> unhurried example_boneNames"
    by (simp add: requests_setExpression)
  from unhurried.animation_answered [OF this, of "Loaded wave_file"]
  show ?thesis
    by (simp add: complete_def interleaved_def)
qed

lemma two_models_eq:
  "two_models =
     mounted\<lparr>currentVrm := Some other_vrm,
             scene := room @ [vrm_scene example_vrm, vrm_scene other_vrm],
             requests := [ModelRequest ''/models/daw.vrm'', ModelRequest ''/models/other.vrm''],
             isLoading := False\<rparr>"
  by (simp add: two_models_def loadVRM_eq mounted_eq vrm_onLoad_def model_file_def
      other_file_def scene_add_def room_defs example_vrm_def other_vrm_def)

text \<open>
  Claim C4, as the claim has it: at most one model and at most one animation clip are
  active at any time. With a model loaded, \<open>playAnimation\<close> is called twice before
  either load is answered; each call finds no active action to fade out, and the two
  callbacks then start an action each: both are at work in the mixer, the first still
  fading in. In the same way, \<open>loadVRM\<close> called while the initial model is still being
  loaded finds no current model to remove, and the two callbacks add a model each: both
  are in the scene.
\<close>

theorem overlapping_loads_leave_two:
  "active_actions overlapping = [0, 1]
   \<and> \<not> length (active_actions overlapping) \<le> 1
   \<and> activeAction overlapping = Some 1
   \<and> fade (actions overlapping ! 0) = Some (FadeIn 0.5)
   \<and> models_in_scene two_models = [vrm_scene example_vrm, vrm_scene other_vrm]
   \<and> \<not> length (models_in_scene two_models) \<le> 1
   \<and> currentVrm two_models = Some other_vrm"
  by (simp add: overlapping_eq active_actions_def at_work_def fading_out_def two_models_eq
      models_in_scene_def room_defs example_vrm_def other_vrm_def)

text \<open>
  Claim C4, amended. \<open>loadVRM\<close> with a non-empty URL, in either component, removes the
  scene of the current model from the scene and sets \<open>currentVrm\<close> to null when it
  starts the load, and \<open>playAnimation\<close>, with a model loaded and a non-empty URL, tells
  the active action to fade out and sets \<open>activeAction\<close> to null. As long as no load of
  a model is started while the load of a model waits for its answer, and no load of an
  animation while the load of an animation waits, the scene holds at most one model, the
  current one, and the mixer has at most one action at work, the active one, whatever
  else is called while the loads wait and in whatever order they are answered.
\<close>

theorem one_model_one_action_unless_loads_overlap:
  "((st, model, animation) \<in> unhurried boneNames \<longrightarrow>
      length (models_in_scene st) \<le> 1
      \<and> set (models_in_scene st) \<subseteq> set_option (map_option vrm_scene (currentVrm st))
      \<and> length (active_actions st) \<le> 1
      \<and> set (active_actions st) \<subseteq> set_option (activeAction st))
   \<and> (url \<noteq> [] \<longrightarrow>
        currentVrm (loadVRM url st) = None
        \<and> (\<forall>v. currentVrm st = Some v \<longrightarrow> vrm_scene v \<notin> set (scene (loadVRM url st)))
        \<and> requests (loadVRM url st) = requests st @ [ModelRequest url])
   \<and> (url \<noteq> [] \<longrightarrow>
        currentVrm (page_loadVRM url st) = None
        \<and> (\<forall>v. currentVrm st = Some v \<longrightarrow> vrm_scene v \<notin> set (scene (page_loadVRM url st))))
   \<and> (currentVrm st \<noteq> None \<and> url \<noteq> [] \<longrightarrow>
        activeAction (playAnimation url st) = None
        \<and> (\<forall>a. activeAction st = Some a \<and> a < length (actions st) \<longrightarrow>
              fade (actions (playAnimation url st) ! a) = Some (FadeOut 0.5)))"
proof -
  have inv: "(st, model, animation) \<in> unhurried boneNames \<longrightarrow>
      length (models_in_scene st) \<le> 1
      \<and> set (models_in_scene st) \<subseteq> set_option (map_option vrm_scene (currentVrm st))
      \<and> length (active_actions st) \<le> 1
      \<and> set (active_actions st) \<subseteq> set_option (activeAction st)"
    using waiting_one_each [OF unhurried_waiting] by blast
  have load: "url \<noteq> [] \<longrightarrow>
        currentVrm (loadVRM url st) = None
        \<and> (\<forall>v. currentVrm st = Some v \<longrightarrow> vrm_scene v \<notin> set (scene (loadVRM url st)))
        \<and> requests (loadVRM url st) = requests st @ [ModelRequest url]"
    using loadVRM_removes_model by (simp add: loadVRM_eq)
  have page: "url \<noteq> [] \<longrightarrow>
        currentVrm (page_loadVRM url st) = None
        \<and> (\<forall>v. currentVrm st = Some v \<longrightarrow> vrm_scene v \<notin> set (scene (page_loadVRM url st)))"
    by (auto simp: page_loadVRM_def Let_def scene_remove_def split: option.splits)
  have play: "currentVrm st \<noteq> None \<and> url \<noteq> [] \<longrightarrow>
        activeAction (playAnimation url st) = None
        \<and> (\<forall>a. activeAction st = Some a \<and> a < length (actions st) \<longrightarrow>
              fade (actions (playAnimation url st) ! a) = Some (FadeOut 0.5))"
    using playAnimation_fades_active by blast
  from inv load page play show ?thesis
    by blast
qed

theorem one_model_one_action_unless_loads_overlap_witness:
  "(interleaved, None, None) \<in> unhurried example_boneNames
   \<and> models_in_scene interleaved = [vrm_scene example_vrm]
   \<and> length (models_in_scene interleaved) \<le> 1
   \<and> active_actions interleaved = [0]
   \<and> length (active_actions interleaved) \<le> 1
   \<and> activeExpression interleaved = ''happy''
   \<and> currentVrm interleaved \<noteq> None
   \<and> activeAction (playAnimation ''/animations/nod.glb'' interleaved) = None
   \<and> fade (actions (playAnimation ''/animations/nod.glb'' interleaved) ! 0)
       = Some (FadeOut 0.5)"
proof -
  note reach = interleaved_unhurried
  have models: "models_in_scene interleaved = [vrm_scene example_vrm]"
    by (simp add: interleaved_eq smiling_eq with_model_eq mounted_eq models_in_scene_def
        room_defs example_vrm_def)
  have acts: "active_actions interleaved = [0]"
    by (simp add: interleaved_eq active_actions_def at_work_def fading_out_def)
  have cur: "currentVrm interleaved \<noteq> None"
    and active: "activeAction interleaved = Some 0"
    and store: "0 < length (actions interleaved)"
    and smile: "activeExpression interleaved = ''happy''"
    by (simp_all add: interleaved_eq smiling_eq with_model_eq mounted_eq)
  have url: "''/animations/nod.glb'' \<noteq> []"
    by simp
  from one_model_one_action_unless_loads_overlap
    [where st = interleaved and boneNames = example_boneNames
      and model = None and animation = None
      and url = "''/animations/nod.glb''"] reach cur url active store
  have "length (models_in_scene interleaved) \<le> 1"
    and "length (active_actions interleaved) \<le> 1"
    and "activeAction (playAnimation ''/animations/nod.glb'' interleaved) = None"
    and "fade (actions (playAnimation ''/animations/nod.glb'' interleaved) ! 0)
       = Some (FadeOut 0.5)"
    by blast+
  with reach models acts cur smile show ?thesis
    by blast
qed

section \<open>No animation without a model\<close>

lemma attached_invoke: "attached_to_model st \<Longrightarrow> attached_to_model (invoke f arg weight st)"
  by (cases f)
    (auto simp: attached_to_model_def loadVRM_def resetExpressions_def with_manager_def
      has_manager_def setExpression_def playAnimation_def stopAnimation_def
      fade_out_active_def Let_def split: option.splits)

lemma attached_complete:
  "attached_to_model st \<Longrightarrow> attached_to_model (complete boneNames request out st)"
  by (auto simp: attached_to_model_def complete_def vrm_onLoad_def vrm_onError_def
      fbx_onLoad_def fbx_onError_def gltf_onLoad_def gltf_onError_def ensure_mixer_def
      play_looping_def play_clip_def clipAction_def Let_def
      split: load_request.splits outcome.splits option.splits list.splits sum.splits)

lemma reachable_attached: "st \<in> reachable boneNames \<Longrightarrow> attached_to_model st"
  by (induction rule: reachable.induct)
    (simp_all add: attached_invoke attached_complete, simp add: attached_to_model_def)

lemma overlapping_reachable: "overlapping \<in> reachable example_boneNames"
proof -
  have "mounted \<in> reachable example_boneNames"
    by (rule reachable.initial) (simp_all add: mounted_eq)
  from reachable.called_back [OF this, of "ModelRequest ''/models/daw.vrm''" "Loaded model_file"]
  have "with_model \<in> reachable example_boneNames"
    by (simp add: complete_def with_model_def model_file_def)
  from reachable.called [OF this, of PlayAnimation "''/animations/wave.glb''" 1]
  have "playAnimation ''/animations/wave.glb'' with_model \<in> reachable example_boneNames"
    by simp
  from reachable.called [OF this, of PlayAnimation "''/animations/nod.glb''" 1]
  have "playAnimation ''/animations/nod.glb''
      (playAnimation ''/animations/wave.glb'' with_model) \<in> reachable example_boneNames"
    by simp
  from reachable.called_back
    [OF this, of "GLTFRequest ''/animations/wave.glb''" "Loaded wave_file"]
  have "gltf_onLoad wave_file (playAnimation ''/animations/nod.glb''
      (playAnimation ''/animations/wave.glb'' with_model)) \<in> reachable example_boneNames"
    by (simp add: complete_def)
  from reachable.called_back
    [OF this, of "GLTFRequest ''/animations/nod.glb''" "Loaded nod_file"]
  show ?thesis
    by (simp add: complete_def overlapping_def)
qed

text \<open>
  Claim C3. \<open>playAnimation\<close> called while no model is loaded returns the state as it was,
  and so do the success callbacks of the FBX and of the GLTF load when the model is gone
  by the time they run. Hence, in whatever order calls are made and callbacks run, an
  action is active only while a model is loaded: an animation is attached only to a model
  that has arrived.
\<close>

theorem playAnimation_needs_model:
  "(currentVrm st = None \<longrightarrow>
      playAnimation url st = st \<and> fbx_onLoad boneNames fbx st = st
      \<and> gltf_onLoad gltf st = st)
   \<and> (st \<in> reachable boneNames \<and> activeAction st \<noteq> None \<longrightarrow> currentVrm st \<noteq> None)"
proof -
  have guards: "currentVrm st = None \<longrightarrow>
      playAnimation url st = st \<and> fbx_onLoad boneNames fbx st = st
      \<and> gltf_onLoad gltf st = st"
    by (simp add: playAnimation_def fbx_onLoad_def gltf_onLoad_def)
  have order: "st \<in> reachable boneNames \<and> activeAction st \<noteq> None \<longrightarrow> currentVrm st \<noteq> None"
    using reachable_attached [of st boneNames] by (auto simp: attached_to_model_def)
  from guards order show ?thesis
    by blast
qed

theorem playAnimation_needs_model_witness:
  "currentVrm mounted = None
   \<and> playAnimation ''/animations/wave.fbx'' mounted = mounted
   \<and> fbx_onLoad example_boneNames wave_file mounted = mounted
   \<and> gltf_onLoad wave_file mounted = mounted
   \<and> overlapping \<in> reachable example_boneNames
   \<and> activeAction overlapping \<noteq> None
   \<and> currentVrm overlapping \<noteq> None"
proof -
  have no_model: "currentVrm mounted = None"
    by (simp add: mounted_eq)
  have active: "activeAction overlapping \<noteq> None"
    by (simp add: overlapping_eq)
  from playAnimation_needs_model
    [where st = mounted and url = "''/animations/wave.fbx''"
       and boneNames = example_boneNames and fbx = wave_file and gltf = wave_file]
    no_model
  have a: "playAnimation ''/animations/wave.fbx'' mounted = mounted
      \<and> fbx_onLoad example_boneNames wave_file mounted = mounted
      \<and> gltf_onLoad wave_file mounted = mounted"
    by blast
  from playAnimation_needs_model
    [where st = overlapping and boneNames = example_boneNames]
    overlapping_reachable active
  have b: "currentVrm overlapping \<noteq> None"
    by blast
  from no_model a overlapping_reachable active b show ?thesis
    by blast
qed

section \<open>The functions handed out\<close>

lemma refs_loadVRM:
  "containerRef (loadVRM url st) = containerRef st"
  "animationControlRef (loadVRM url st) = animationControlRef st"
  "modelUrl (loadVRM url st) = modelUrl st"
  "animationUrl (loadVRM url st) = animationUrl st"
  by (simp_all add: loadVRM_def resetExpressions_def with_manager_def Let_def
      split: option.splits)

lemma refs_mountEffect:
  assumes "containerRef st = Some c"
  shows "containerRef (mountEffect st)
       = Some \<lparr>container_loadVRM = Some LoadVRM, container_playAnimation = Some PlayAnimation,
               container_setExpression = Some SetExpression\<rparr>"
    and "animationControlRef (mountEffect st)
       = Some \<lparr>control_playAnimation = PlayAnimation, control_stopAnimation = StopAnimation,
               control_setExpression = SetExpression,
               control_resetExpressions = ResetExpressions\<rparr>"
  using assms by (simp_all add: mountEffect_def Let_def refs_loadVRM)

lemma refs_invoke:
  "containerRef (invoke f arg weight st) = containerRef st"
  "animationControlRef (invoke f arg weight st) = animationControlRef st"
  by (cases f; simp add: refs_loadVRM playAnimation_def stopAnimation_def fade_out_active_def
      setExpression_def resetExpressions_def with_manager_def Let_def split: option.splits)+

lemma refs_complete:
  "containerRef (complete boneNames request out st) = containerRef st"
  "animationControlRef (complete boneNames request out st) = animationControlRef st"
  by (simp_all add: complete_def vrm_onLoad_def vrm_onError_def fbx_onLoad_def fbx_onError_def
      gltf_onLoad_def gltf_onError_def ensure_mixer_def play_looping_def play_clip_def
      clipAction_def Let_def
      split: load_request.splits outcome.splits option.splits list.splits sum.splits)

lemma exposed_kept:
  "exposed st \<Longrightarrow> exposed (invoke f arg weight st)"
  "exposed st \<Longrightarrow> exposed (complete boneNames request out st)"
  by (simp_all add: exposed_def refs_invoke refs_complete)

lemma exposed_handlers:
  assumes "exposed st"
  shows "handleLoadModel st = (if modelUrl st = [] then st else loadVRM (modelUrl st) st)"
    and "handlePlayAnimation st
       = (if animationUrl st = [] then st else playAnimation (animationUrl st) st)"
    and "handleStopAnimation st = stopAnimation st"
    and "handleSetExpression expression st = setExpression expression expressionWeight st"
    and "handleResetExpressions st = resetExpressions st"
  using assms
  by (simp_all add: exposed_def handleLoadModel_def handlePlayAnimation_def
      handleStopAnimation_def handleSetExpression_def handleResetExpressions_def
      call_container_def)

lemma page_refs:
  "fst (page_mountEffect (Some container) st)
     = Some (AList.update ''loadVRM'' PageLoadModel container)"
  "animationControlRef (snd (page_mountEffect ref st)) = animationControlRef st"
  by (simp_all add: page_mountEffect_def page_loadVRM_def Let_def split: option.splits)

lemma page_handler:
  "page_handleLoadModel (fst (page_mountEffect (Some container) st)) st'
     = (if modelUrl st' = [] then st' else page_loadVRM (modelUrl st') st')"
  by (simp add: page_refs page_handleLoadModel_def update_conv')

text \<open>
  Claim C7, as the claim has it: after the component mounts, the container element holds
  \<open>loadVRM\<close>, \<open>playAnimation\<close> and \<open>setExpression\<close>, and an animation-control ref holds
  \<open>stopAnimation\<close> and \<open>resetExpressions\<close>. In the older component (\<open>page.tsx\<close>), which the
  claim names, the effect sets \<open>loadVRM\<close> on the container element and nothing else, and
  there is no animation-control ref to set.
\<close>

theorem page_container_holds_loadVRM_only:
  "fst (page_mountEffect (Some []) unmounted) = Some [(''loadVRM'', PageLoadModel)]
   \<and> map_option (\<lambda>container. map_of container ''playAnimation'')
        (fst (page_mountEffect (Some []) unmounted)) = Some None
   \<and> map_option (\<lambda>container. map_of container ''setExpression'')
        (fst (page_mountEffect (Some []) unmounted)) = Some None
   \<and> animationControlRef (snd (page_mountEffect (Some []) unmounted)) = None"
  by (simp add: page_refs unmounted_def)

text \<open>
  Claim C7, amended. In the viewer with animations, once the effect has run with a
  container element, the container holds \<open>loadVRM\<close>, \<open>playAnimation\<close> and \<open>setExpression\<close>
  and the animation-control ref holds \<open>playAnimation\<close>, \<open>stopAnimation\<close>, \<open>setExpression\<close>
  and \<open>resetExpressions\<close>; no call and no callback takes them away; and in every state in
  which they are held the five handlers of the form do what the functions they are named
  after do: load the model of the URL field, play the animation of the URL field, stop
  the animation, set an expression at the weight 1, and reset the expressions. In the
  older viewer the effect sets \<open>loadVRM\<close> on the container and nothing else, there is no
  animation-control ref, and the one handler of the form loads the model of the URL
  field.
\<close>

theorem controls_are_handed_out:
  "(containerRef st = Some c \<longrightarrow>
      containerRef (mountEffect st)
        = Some \<lparr>container_loadVRM = Some LoadVRM,
                container_playAnimation = Some PlayAnimation,
                container_setExpression = Some SetExpression\<rparr>
      \<and> animationControlRef (mountEffect st)
        = Some \<lparr>control_playAnimation = PlayAnimation,
                control_stopAnimation = StopAnimation,
                control_setExpression = SetExpression,
                control_resetExpressions = ResetExpressions\<rparr>
      \<and> exposed (mountEffect st))
   \<and> (exposed st \<longrightarrow>
        handleLoadModel st = (if modelUrl st = [] then st else loadVRM (modelUrl st) st)
        \<and> handlePlayAnimation st
            = (if animationUrl st = [] then st else playAnimation (animationUrl st) st)
        \<and> handleStopAnimation st = stopAnimation st
        \<and> handleSetExpression expression st = setExpression expression expressionWeight st
        \<and> handleResetExpressions st = resetExpressions st
        \<and> exposed (invoke f arg weight st)
        \<and> exposed (complete boneNames request out st))
   \<and> fst (page_mountEffect (Some container) st)
        = Some (AList.update ''loadVRM'' PageLoadModel container)
   \<and> map_option (map fst) (fst (page_mountEffect (Some []) st)) = Some [''loadVRM'']
   \<and> animationControlRef (snd (page_mountEffect ref st)) = animationControlRef st
   \<and> page_invoke PageLoadModel url st = page_loadVRM url st
   \<and> page_handleLoadModel (fst (page_mountEffect (Some container) st')) st
        = (if modelUrl st = [] then st else page_loadVRM (modelUrl st) st)"
proof -
  have mount: "containerRef st = Some c \<longrightarrow>
      containerRef (mountEffect st)
        = Some \<lparr>container_loadVRM = Some LoadVRM,
                container_playAnimation = Some PlayAnimation,
                container_setExpression = Some SetExpression\<rparr>
      \<and> animationControlRef (mountEffect st)
        = Some \<lparr>control_playAnimation = PlayAnimation,
                control_stopAnimation = StopAnimation,
                control_setExpression = SetExpression,
                control_resetExpressions = ResetExpressions\<rparr>
      \<and> exposed (mountEffect st)"
    by (simp add: exposed_def refs_mountEffect)
  have form: "exposed st \<longrightarrow>
        handleLoadModel st = (if modelUrl st = [] then st else loadVRM (modelUrl st) st)
        \<and> handlePlayAnimation st
            = (if animationUrl st = [] then st else playAnimation (animationUrl st) st)
        \<and> handleStopAnimation st = stopAnimation st
        \<and> handleSetExpression expression st = setExpression expression expressionWeight st
        \<and> handleResetExpressions st = resetExpressions st
        \<and> exposed (invoke f arg weight st)
        \<and> exposed (complete boneNames request out st)"
    using exposed_handlers [of st] exposed_kept [of st] by blast
  have page: "fst (page_mountEffect (Some container) st)
        = Some (AList.update ''loadVRM'' PageLoadModel container)
   \<and> map_option (map fst) (fst (page_mountEffect (Some []) st)) = Some [''loadVRM'']
   \<and> animationControlRef (snd (page_mountEffect ref st)) = animationControlRef st
   \<and> page_invoke PageLoadModel url st = page_loadVRM url st
   \<and> page_handleLoadModel (fst (page_mountEffect (Some container) st')) st
        = (if modelUrl st = [] then st else page_loadVRM (modelUrl st) st)"
    using page_handler [of container st' st] by (simp add: page_refs)
  from mount form page show ?thesis
    by blast
qed

theorem controls_are_handed_out_witness:
  "containerRef unmounted
     = Some \<lparr>container_loadVRM = None, container_playAnimation = None,
             container_setExpression = None\<rparr>
   \<and> exposed mounted
   \<and> handleLoadModel mounted = loadVRM ''/models/daw.vrm'' mounted
   \<and> exposed with_model
   \<and> handleSetExpression ''happy'' with_model = smiling
   \<and> activeExpression smiling = ''happy''
   \<and> handleResetExpressions smiling = resetExpressions smiling
   \<and> activeExpression (handleResetExpressions smiling) = []
   \<and> exposed overlapping
   \<and> activeAction overlapping = Some 1
   \<and> handleStopAnimation overlapping = stopAnimation overlapping
   \<and> activeAction (handleStopAnimation overlapping) = None"
proof -
  have c: "containerRef unmounted
     = Some \<lparr>container_loadVRM = None, container_playAnimation = None,
             container_setExpression = None\<rparr>"
    by (simp add: unmounted_def)
  from controls_are_handed_out
    [where st = unmounted
       and c = "\<lparr>container_loadVRM = None, container_playAnimation = None,
                 container_setExpression = None\<rparr>"] c
  have m: "exposed mounted"
    by (simp add: mounted_def)
  have e: "exposed with_model" "exposed smiling" "exposed overlapping"
    by (simp_all add: exposed_def overlapping_eq smiling_eq with_model_eq mounted_eq)
  have url: "modelUrl mounted = ''/models/daw.vrm''"
    by (simp add: mounted_eq)
  have active: "activeAction overlapping = Some 1"
    by (simp add: overlapping_eq)
  have stopped: "activeAction (stopAnimation overlapping) = None"
    by (simp add: stopAnimation_def fade_out_active_fields)
  have smile: "activeExpression smiling = ''happy''"
    by (simp add: smiling_eq)
  have v: "currentVrm smiling
      = Some (example_vrm\<lparr>expressionManager :=
                Some [(''neutral'', 0), (''happy'', 1), (''blink'', 0), (''wink'', 0)]\<rparr>)"
    by (simp add: smiling_eq)
  have reset: "activeExpression (resetExpressions smiling) = []"
    by (simp add: resetExpressions_with_manager [OF v] example_vrm_def)
  from controls_are_handed_out [where st = mounted] m url
  have load: "handleLoadModel mounted = loadVRM ''/models/daw.vrm'' mounted"
    by simp
  from controls_are_handed_out [where st = with_model and expression = "''happy''"] e(1)
  have set: "handleSetExpression ''happy'' with_model = smiling"
    by (simp add: smiling_def)
  from controls_are_handed_out [where st = smiling] e(2)
  have unset: "handleResetExpressions smiling = resetExpressions smiling"
    by blast
  from controls_are_handed_out [where st = overlapping] e(3)
  have stop: "handleStopAnimation overlapping = stopAnimation overlapping"
    by blast
  from c m e load set smile unset reset active stop stopped show ?thesis
    by simp
qed

end
